theory Spec2Isabelle
  imports Complex_Main
begin

section \<open>Python values and exceptions\<close>

datatype exn_class =
    TypeError | AttributeError | KeyError | IndexError | ValueError | OverflowError
  | RuntimeError | ImportError | OtherException

text \<open>
  Instances of \<open>Exception\<close>. \<open>Exn c m\<close> is an exception of class \<open>c\<close> (or of a subclass
  of it that no handler of the source tells apart) whose \<open>str\<close> is \<open>m\<close>.
  \<open>ArgumentMismatch m\<close> is the \<open>TypeError\<close> that a call raises, before the body of
  the callable runs, when the keyword arguments do not fit its parameters; a
  \<open>TypeError\<close> raised while the callable runs is \<open>Exn TypeError m\<close>. Both are
  instances of the one class \<open>TypeError\<close>. \<open>AllVariantsFailed\<close> is the \<open>TypeError\<close>
  raised at the end of \<open>_call_with_signature\<close>, with the list \<open>tried\<close> its message is
  formatted from; \<open>RequestFailed n e\<close> is the \<open>RuntimeError\<close> raised by
  \<open>ask_gemini_sync\<close> after \<open>n\<close> attempts, chained \<open>from e\<close>. What \<open>except Exception\<close>
  does not catch (\<open>KeyboardInterrupt\<close>, \<open>SystemExit\<close>) is not modelled.

  A \<open>tried_note\<close> is one entry of the list \<open>tried\<close>: the text after the candidate's
  name, with the formatted exception kept as data.
\<close>

datatype tried_note =
    Skipped
  | Trying "string list"
  | TypeErrorNote exn
and exn =
    Exn exn_class string
  | ArgumentMismatch string
  | AllVariantsFailed "(string \<times> tried_note) list"
  | RequestFailed int exn

text \<open>What \<open>except TypeError\<close> catches.\<close>

fun is_TypeError :: "exn \<Rightarrow> bool" where
  "is_TypeError (Exn c m) = (c = TypeError)"
| "is_TypeError (ArgumentMismatch m) = True"
| "is_TypeError (AllVariantsFailed tried) = True"
| "is_TypeError (RequestFailed n e) = False"

text \<open>
  The values a provider response is made of: \<open>None\<close>, booleans, integers, strings,
  bytes, lists, dictionaries with string keys (in insertion order), and objects.
  A string is a list of code points below 256. An object \<open>PObj s r m attrs\<close> carries
  \<^item> what \<open>str\<close> gives for it: a string, or the exception raised (by \<open>__str__\<close>
    itself, or the \<open>TypeError\<close> of \<open>str\<close> when \<open>__str__\<close> returns no string);
  \<^item> what \<open>repr\<close> gives for it, in the same way;
  \<^item> what a call of its method \<open>strip\<close> without arguments gives, when it has one;
  \<^item> its other attributes, which are plain data.
  Floating-point numbers, and classes that overload truth value, length, indexing or
  attribute access, are outside this universe.
\<close>

datatype pyval =
    PNone
  | PBool bool
  | PInt int
  | PStr string
  | PBytes string
  | PList "pyval list"
  | PDict "(string \<times> pyval) list"
  | PObj "exn + string" "exn + string" "(exn + pyval) option" "(string \<times> pyval) list"

subsection \<open>Built-in operations used by the source\<close>

text \<open>Truth value of a value, as \<open>if x:\<close> tests it.\<close>

fun truthy :: "pyval \<Rightarrow> bool" where
  "truthy PNone = False"
| "truthy (PBool b) = b"
| "truthy (PInt i) = (i \<noteq> 0)"
| "truthy (PStr s) = (s \<noteq> [])"
| "truthy (PBytes b) = (b \<noteq> [])"
| "truthy (PList xs) = (xs \<noteq> [])"
| "truthy (PDict kvs) = (kvs \<noteq> [])"
| "truthy (PObj s r m attrs) = True"

text \<open>
  \<open>getattr(x, name, None)\<close> for the names the source asks for (\<open>output\<close>,
  \<open>candidates\<close>, \<open>content\<close>, \<open>text\<close>): no built-in value has such an attribute.
\<close>

fun getattr_None :: "pyval \<Rightarrow> string \<Rightarrow> pyval" where
  "getattr_None (PObj s r m attrs) name = (case map_of attrs name of Some v \<Rightarrow> v | None \<Rightarrow> PNone)"
| "getattr_None v name = PNone"

fun py_len :: "pyval \<Rightarrow> exn + nat" where
  "py_len (PStr s) = Inr (length s)"
| "py_len (PBytes b) = Inr (length b)"
| "py_len (PList xs) = Inr (length xs)"
| "py_len (PDict kvs) = Inr (length kvs)"
| "py_len v = Inl (Exn TypeError ''object has no len()'')"

text \<open>
  \<open>x[0]\<close>. A dictionary has string keys only, so the key \<open>0\<close> is never there; the
  first element of bytes is an integer.
\<close>

fun py_index0 :: "pyval \<Rightarrow> exn + pyval" where
  "py_index0 (PList []) = Inl (Exn IndexError ''list index out of range'')"
| "py_index0 (PList (x # xs)) = Inr x"
| "py_index0 (PStr []) = Inl (Exn IndexError ''string index out of range'')"
| "py_index0 (PStr (c # cs)) = Inr (PStr [c])"
| "py_index0 (PBytes []) = Inl (Exn IndexError ''index out of range'')"
| "py_index0 (PBytes (c # cs)) = Inr (PInt (of_char c))"
| "py_index0 (PDict kvs) = Inl (Exn KeyError ''0'')"
| "py_index0 v = Inl (Exn TypeError ''object is not subscriptable'')"

text \<open>\<open>part.get("text") if isinstance(part, dict) else None\<close>.\<close>

fun dict_get_text :: "pyval \<Rightarrow> pyval" where
  "dict_get_text (PDict kvs) = (case map_of kvs ''text'' of Some v \<Rightarrow> v | None \<Rightarrow> PNone)"
| "dict_get_text v = PNone"

text \<open>
  White space as \<open>str.strip()\<close> sees it, among the code points below 256:
  9 to 13, 28 to 32, 133 and 160.
\<close>

definition is_space :: "char \<Rightarrow> bool" where
  "is_space c = (let n = (of_char c :: nat) in
     (9 \<le> n \<and> n \<le> 13) \<or> (28 \<le> n \<and> n \<le> 32) \<or> n = 133 \<or> n = 160)"

definition strip :: "string \<Rightarrow> string" where
  "strip s = rev (dropWhile is_space (rev (dropWhile is_space s)))"

text \<open>White space as \<open>bytes.strip()\<close> sees it: 9 to 13 and 32.\<close>

definition is_ascii_space :: "char \<Rightarrow> bool" where
  "is_ascii_space c = (let n = (of_char c :: nat) in (9 \<le> n \<and> n \<le> 13) \<or> n = 32)"

definition bytes_strip :: "string \<Rightarrow> string" where
  "bytes_strip b = rev (dropWhile is_ascii_space (rev (dropWhile is_ascii_space b)))"

text \<open>
  \<open>x.strip()\<close>: a string and bytes have the method; an object has it when its class
  gives it one, and the call then returns or raises what that method does. Other
  attributes of an object are data, so one called \<open>strip\<close> is not callable.
\<close>

fun call_strip :: "pyval \<Rightarrow> exn + pyval" where
  "call_strip (PStr s) = Inr (PStr (strip s))"
| "call_strip (PBytes b) = Inr (PBytes (bytes_strip b))"
| "call_strip (PObj s r (Some outcome) attrs) = outcome"
| "call_strip (PObj s r None attrs) =
     (if map_of attrs ''strip'' = None
      then Inl (Exn AttributeError ''object has no attribute strip'')
      else Inl (Exn TypeError ''object is not callable''))"
| "call_strip v = Inl (Exn AttributeError ''object has no attribute strip'')"

subsection \<open>The built-in \<open>str\<close> and \<open>repr\<close>\<close>

fun digit_char :: "nat \<Rightarrow> char" where
  "digit_char n = char_of (48 + n)"

fun dec_nat :: "nat \<Rightarrow> string" where
  "dec_nat n = (if n < 10 then [digit_char n] else dec_nat (n div 10) @ [digit_char (n mod 10)])"

declare dec_nat.simps [simp del]

definition dec_int :: "int \<Rightarrow> string" where
  "dec_int i = (if i < 0 then CHR ''-'' # dec_nat (nat (- i)) else dec_nat (nat i))"

definition hex_digit :: "nat \<Rightarrow> char" where
  "hex_digit n = (if n < 10 then char_of (48 + n) else char_of (87 + n))"

text \<open>
  \<open>repr\<close> of a string: double quotes when the string has a single quote and no
  double quote, single quotes otherwise; the quote and the backslash are escaped,
  tab, newline and carriage return are written \<open>\t\<close>, \<open>\n\<close>, \<open>\r\<close>, and every other code
  point that is not printable (below 32, 127 to 160, 173) is written \<open>\xNN\<close>.
\<close>

definition repr_char :: "char \<Rightarrow> char \<Rightarrow> string" where
  "repr_char q c = (let n = (of_char c :: nat) in
     if c = q \<or> n = 92 then [CHR 0x5C, c]
     else if n = 9 then [CHR 0x5C, CHR ''t'']
     else if n = 10 then [CHR 0x5C, CHR ''n'']
     else if n = 13 then [CHR 0x5C, CHR ''r'']
     else if n < 32 \<or> (127 \<le> n \<and> n \<le> 160) \<or> n = 173
       then [CHR 0x5C, CHR ''x'', hex_digit (n div 16), hex_digit (n mod 16)]
     else [c])"

definition quote_for :: "string \<Rightarrow> char" where
  "quote_for s = (if CHR 0x27 \<in> set s \<and> CHR 0x22 \<notin> set s
                  then CHR 0x22 else CHR 0x27)"

definition repr_str :: "string \<Rightarrow> string" where
  "repr_str s = [quote_for s] @ concat (map (repr_char (quote_for s)) s) @ [quote_for s]"

text \<open>
  \<open>repr\<close> of bytes: the prefix \<open>b\<close> and the same choice of quotes; every byte below
  32 or above 126 that has no short escape is written \<open>\xNN\<close>.
\<close>

definition repr_byte :: "char \<Rightarrow> char \<Rightarrow> string" where
  "repr_byte q c = (let n = (of_char c :: nat) in
     if c = q \<or> n = 92 then [CHR 0x5C, c]
     else if n = 9 then [CHR 0x5C, CHR ''t'']
     else if n = 10 then [CHR 0x5C, CHR ''n'']
     else if n = 13 then [CHR 0x5C, CHR ''r'']
     else if n < 32 \<or> 127 \<le> n
       then [CHR 0x5C, CHR ''x'', hex_digit (n div 16), hex_digit (n mod 16)]
     else [c])"

definition repr_bytes :: "string \<Rightarrow> string" where
  "repr_bytes b =
     CHR ''b'' # [quote_for b] @ concat (map (repr_byte (quote_for b)) b) @ [quote_for b]"

fun join :: "string \<Rightarrow> string list \<Rightarrow> string" where
  "join sep [] = []"
| "join sep [x] = x"
| "join sep (x # y # ys) = x @ sep @ join sep (y # ys)"

text \<open>The results of a list of steps, or the first exception raised among them.\<close>

fun first_raise :: "(exn + 'a) list \<Rightarrow> exn + 'a list" where
  "first_raise [] = Inr []"
| "first_raise (Inl e # rs) = Inl e"
| "first_raise (Inr x # rs) = (case first_raise rs of Inl e \<Rightarrow> Inl e | Inr xs \<Rightarrow> Inr (x # xs))"

fun py_repr :: "pyval \<Rightarrow> exn + string" where
  "py_repr PNone = Inr ''None''"
| "py_repr (PBool b) = Inr (if b then ''True'' else ''False'')"
| "py_repr (PInt i) = Inr (dec_int i)"
| "py_repr (PStr s) = Inr (repr_str s)"
| "py_repr (PBytes b) = Inr (repr_bytes b)"
| "py_repr (PList xs) =
     (case first_raise (map py_repr xs) of
        Inl e \<Rightarrow> Inl e
      | Inr ss \<Rightarrow> Inr (''['' @ join '', '' ss @ '']''))"
| "py_repr (PDict kvs) =
     (case first_raise (map (\<lambda>kv. py_repr (snd kv)) kvs) of
        Inl e \<Rightarrow> Inl e
      | Inr ss \<Rightarrow>
          Inr (''{'' @ join '', '' (map (\<lambda>ks. repr_str (fst ks) @ '': '' @ snd ks)
                                     (zip (map fst kvs) ss)) @ ''}''))"
| "py_repr (PObj s r m attrs) = r"

fun py_str :: "pyval \<Rightarrow> exn + string" where
  "py_str (PStr s) = Inr s"
| "py_str (PObj s r m attrs) = s"
| "py_str v = py_repr v"

section \<open>Response normalization: \<open>_extract_text\<close>\<close>

text \<open>
  The outcome of a \<open>try\<close> body: \<open>Inl e\<close> when it raised \<open>e\<close>, \<open>Inr (Some v)\<close> when it
  returned \<open>v\<close>, \<open>Inr None\<close> when it ran to its end without returning.
\<close>

text \<open>\<open>getattr(part, "text", None) or (part.get("text") if isinstance(part, dict) else None)\<close>\<close>

definition part_text :: "pyval \<Rightarrow> pyval" where
  "part_text part =
     (let t = getattr_None part ''text'' in if truthy t then t else dict_get_text part)"

text \<open>
  The body of the first two \<open>try\<close> blocks, which differ in the attribute read from the
  response only (\<open>output\<close>, then \<open>candidates\<close>).
\<close>

definition try_first_part :: "string \<Rightarrow> pyval \<Rightarrow> exn + pyval option" where
  "try_first_part name resp =
     (let output = getattr_None resp name in
      if \<not> truthy output then Inr None else
      case py_len output of Inl e \<Rightarrow> Inl e | Inr n \<Rightarrow>
      if \<not> n > 0 then Inr None else
      case py_index0 output of Inl e \<Rightarrow> Inl e | Inr first \<Rightarrow>
      let c = getattr_None first ''content'' in
      if \<not> truthy c then Inr None else
      case py_len c of Inl e \<Rightarrow> Inl e | Inr m \<Rightarrow>
      if \<not> m > 0 then Inr None else
      case py_index0 c of Inl e \<Rightarrow> Inl e | Inr part \<Rightarrow>
      let text = part_text part in
      if truthy text
      then (case call_strip text of Inl e \<Rightarrow> Inl e | Inr v \<Rightarrow> Inr (Some v))
      else Inr None)"

definition try_text :: "pyval \<Rightarrow> exn + pyval option" where
  "try_text resp =
     (let t = getattr_None resp ''text'' in
      if truthy t
      then (case call_strip t of Inl e \<Rightarrow> Inl e | Inr v \<Rightarrow> Inr (Some v))
      else Inr None)"

text \<open>\<open>except Exception: pass\<close> around a \<open>try\<close> body.\<close>

definition except_pass :: "exn + 'a option \<Rightarrow> 'a option" where
  "except_pass r = (case r of Inl e \<Rightarrow> None | Inr x \<Rightarrow> x)"

text \<open>Line 78, outside every \<open>try\<close>: \<open>return str(resp)\<close>.\<close>

definition return_str :: "pyval \<Rightarrow> exn + pyval" where
  "return_str resp = (case py_str resp of Inl e \<Rightarrow> Inl e | Inr s \<Rightarrow> Inr (PStr s))"

definition extract_text :: "pyval \<Rightarrow> exn + pyval" where
  "extract_text resp =
     (case except_pass (try_first_part ''output'' resp) of Some v \<Rightarrow> Inr v | None \<Rightarrow>
      case except_pass (try_first_part ''candidates'' resp) of Some v \<Rightarrow> Inr v | None \<Rightarrow>
      case except_pass (try_text resp) of Some v \<Rightarrow> Inr v | None \<Rightarrow>
      return_str resp)"

subsection \<open>The extraction paths as the specification words them\<close>

text \<open>
  The text an element has: its \<open>text\<close> (an attribute of an object, or a key when the
  element is a dictionary), when that is a value that counts as true.
\<close>

fun spec_has_text :: "pyval \<Rightarrow> pyval option" where
  "spec_has_text (PObj s r m attrs) =
     (case map_of attrs ''text'' of Some t \<Rightarrow> if truthy t then Some t else None
      | None \<Rightarrow> None)"
| "spec_has_text (PDict kvs) =
     (case map_of kvs ''text'' of Some t \<Rightarrow> if truthy t then Some t else None
      | None \<Rightarrow> None)"
| "spec_has_text v = None"

text \<open>The attribute \<open>name\<close> of an object when it is a list with a first element.\<close>

fun spec_first_of_list_attr :: "string \<Rightarrow> pyval \<Rightarrow> pyval option" where
  "spec_first_of_list_attr name (PObj s r m attrs) =
     (case map_of attrs name of Some (PList (x # xs)) \<Rightarrow> Some x | _ \<Rightarrow> None)"
| "spec_first_of_list_attr name v = None"

text \<open>
  The text of path (a) or (b): a list \<open>name\<close> whose first element has a list \<open>content\<close>
  whose first element has text.
\<close>

definition spec_list_text :: "string \<Rightarrow> pyval \<Rightarrow> pyval option" where
  "spec_list_text name resp =
     (case spec_first_of_list_attr name resp of None \<Rightarrow> None
      | Some first \<Rightarrow>
         (case spec_first_of_list_attr ''content'' first of None \<Rightarrow> None
          | Some part \<Rightarrow> spec_has_text part))"

text \<open>The text of path (c): a top-level \<open>text\<close> attribute.\<close>

fun spec_top_text :: "pyval \<Rightarrow> pyval option" where
  "spec_top_text (PObj s r m attrs) =
     (case map_of attrs ''text'' of Some t \<Rightarrow> if truthy t then Some t else None
      | None \<Rightarrow> None)"
| "spec_top_text v = None"

text \<open>A text trimmed: what its \<open>strip()\<close> returns, when that does not raise.\<close>

definition spec_trimmed :: "pyval option \<Rightarrow> pyval option" where
  "spec_trimmed t =
     (case t of None \<Rightarrow> None
      | Some x \<Rightarrow> (case call_strip x of Inl e \<Rightarrow> None | Inr v \<Rightarrow> Some v))"

definition spec_extract :: "pyval \<Rightarrow> exn + pyval" where
  "spec_extract resp =
     (case spec_trimmed (spec_list_text ''output'' resp) of Some v \<Rightarrow> Inr v | None \<Rightarrow>
      case spec_trimmed (spec_list_text ''candidates'' resp) of Some v \<Rightarrow> Inr v | None \<Rightarrow>
      case spec_trimmed (spec_top_text resp) of Some v \<Rightarrow> Inr v | None \<Rightarrow>
      return_str resp)"

text \<open>No path gives a result.\<close>

definition spec_no_path :: "pyval \<Rightarrow> bool" where
  "spec_no_path resp \<longleftrightarrow>
     spec_trimmed (spec_list_text ''output'' resp) = None \<and>
     spec_trimmed (spec_list_text ''candidates'' resp) = None \<and>
     spec_trimmed (spec_top_text resp) = None"

text \<open>Every text found on a path is a string.\<close>

definition is_str_or_absent :: "pyval option \<Rightarrow> bool" where
  "is_str_or_absent t = (case t of None \<Rightarrow> True | Some (PStr s) \<Rightarrow> True | Some v \<Rightarrow> False)"

definition spec_texts_are_str :: "pyval \<Rightarrow> bool" where
  "spec_texts_are_str resp \<longleftrightarrow>
     is_str_or_absent (spec_list_text ''output'' resp) \<and>
     is_str_or_absent (spec_list_text ''candidates'' resp) \<and>
     is_str_or_absent (spec_top_text resp)"

section \<open>The provider and the world\<close>

text \<open>
  Values passed to the provider as keyword arguments: a string, an integer, a float
  (held as the rational it denotes), a list of strings, and the list of
  role/content dictionaries.
\<close>

datatype argval =
    AStr string
  | AInt int
  | AFloat rat
  | AStrList "string list"
  | AMessages "(string \<times> string) list list"

type_synonym kwargs = "(string \<times> argval) list"

text \<open>The callables of the two SDKs that the source calls.\<close>

datatype callee =
    ChatCompletionsCreate
  | ModelsAttr string
  | ClientAttr string
  | OldChatCompletionCreate
  | OldGenerateText

text \<open>
  What the program does to the outside world, in order: calls to the provider,
  \<open>time.sleep\<close>, the insert of the storage layer, and the two log records of the
  \<open>/ask\<close> handler. Output of \<open>print\<close> is not recorded.
\<close>

datatype event =
    Call callee kwargs
  | Sleep rat
  | Execute string pyval
  | LogException exn
  | LogWarning exn

type_synonym trace = "event list"

text \<open>
  The provider: what a call returns or raises, given everything that happened before.
\<close>

type_synonym provider = "trace \<Rightarrow> callee \<Rightarrow> kwargs \<Rightarrow> exn + pyval"

text \<open>\<open>inspect.Parameter.kind\<close> and \<open>inspect.Signature.parameters\<close> (names in order).\<close>

datatype param_kind =
    POSITIONAL_ONLY | POSITIONAL_OR_KEYWORD | VAR_POSITIONAL | KEYWORD_ONLY | VAR_KEYWORD

type_synonym signature = "(string \<times> param_kind) list"

text \<open>
  An attribute of the client or of its \<open>models\<close> namespace: a value that is not
  callable, or a callable together with what \<open>inspect.signature\<close> gives for it
  (\<open>None\<close> when \<open>inspect.signature\<close> raises).
\<close>

datatype member = Data | Callable "signature option"

text \<open>
  The callable handed to \<open>_call_with_signature\<close>: which one it is, and what
  \<open>inspect.signature\<close> gives for it at lines 82 to 86.
\<close>

type_synonym func = "callee \<times> signature option"

record client =
  chat_completions_create :: bool
  models :: "(string \<rightharpoonup> member) option"
  members :: "string \<rightharpoonup> member"

record old_sdk =
  ChatCompletion_create :: bool
  generate_text :: bool

text \<open>
  The module globals of \<open>ai_client.py\<close> after import. \<open>time_sleep\<close> is the function
  \<open>time.sleep\<close> of the module \<open>time\<close> imported at line 3: what it raises for an
  argument, if anything.
\<close>

record globals =
  DEFAULT_MODEL :: string
  time_sleep :: "rat \<Rightarrow> exn + unit"
  has_new_genai :: bool
  client_handle :: "client option"
  has_old_genai :: bool
  old_genai :: "old_sdk option"

section \<open>Shape negotiation: \<open>_call_with_signature\<close>\<close>

text \<open>Line 97: some parameter is of kind \<open>VAR_KEYWORD\<close>.\<close>

definition accepts_varkw :: "signature \<Rightarrow> bool" where
  "accepts_varkw sig = list_ex (\<lambda>p. snd p = VAR_KEYWORD) sig"

text \<open>Lines 92 to 95: the keys of the payload that are names of parameters.\<close>

definition accepted :: "signature \<Rightarrow> kwargs \<Rightarrow> string list" where
  "accepted sig kw = filter (\<lambda>k. k \<in> set (map fst sig)) (map fst kw)"

text \<open>
  Lines 91 to 109: the keyword arguments the call is made with, or \<open>None\<close> when the
  candidate is skipped.
\<close>

definition call_kwargs :: "signature option \<Rightarrow> kwargs \<Rightarrow> kwargs option" where
  "call_kwargs sig kw =
     (case sig of
        None \<Rightarrow> Some kw
      | Some sg \<Rightarrow>
          if accepted sg kw = [] \<and> \<not> accepts_varkw sg then None
          else if accepts_varkw sg then Some kw
          else Some (filter (\<lambda>kv. fst kv \<in> set (map fst sg)) kw))"

text \<open>
  The loop over \<open>payload_variants.items()\<close>, with \<open>tried\<close> as accumulator. The entry
  appended just before an exception other than \<open>TypeError\<close> is raised again is left
  out: the list is dropped with the raise.
\<close>

fun call_loop ::
  "provider \<Rightarrow> func \<Rightarrow> (string \<times> kwargs) list \<Rightarrow> (string \<times> tried_note) list \<Rightarrow> trace
     \<Rightarrow> (exn + pyval \<times> (string \<times> tried_note) list) \<times> trace" where
  "call_loop P f [] tried tr = (Inl (AllVariantsFailed tried), tr)"
| "call_loop P f ((name, kw) # rest) tried tr =
     (case call_kwargs (snd f) kw of
        None \<Rightarrow> call_loop P f rest (tried @ [(name, Skipped)]) tr
      | Some ck \<Rightarrow>
          (let tried1 = tried @ [(name, Trying (map fst ck))];
               tr1 = tr @ [Call (fst f) ck]
           in case P tr (fst f) ck of
                Inr resp \<Rightarrow> (Inr (resp, tried1), tr1)
              | Inl e \<Rightarrow>
                  if is_TypeError e
                  then call_loop P f rest (tried1 @ [(name, TypeErrorNote e)]) tr1
                  else (Inl e, tr1)))"

definition call_with_signature ::
  "provider \<Rightarrow> func \<Rightarrow> (string \<times> kwargs) list \<Rightarrow> trace
     \<Rightarrow> (exn + pyval \<times> (string \<times> tried_note) list) \<times> trace" where
  "call_with_signature P f payload_variants tr = call_loop P f payload_variants [] tr"

section \<open>The invoker: \<open>ask_gemini_sync\<close>\<close>

definition messages_variant :: "string \<Rightarrow> (string \<times> string) list list" where
  "messages_variant question =
     [[(''role'', ''system''), (''content'', ''You are a concise helpful assistant.'')],
      [(''role'', ''user''), (''content'', question)]]"

definition payload_variants :: "string \<Rightarrow> string \<Rightarrow> (string \<times> kwargs) list" where
  "payload_variants question model =
     [(''messages'', [(''messages'', AMessages (messages_variant question)), (''model'', AStr model)]),
      (''contents'', [(''contents'', AStrList [question]), (''model'', AStr model)]),
      (''input'', [(''input'', AStr question), (''model'', AStr model)]),
      (''prompt'', [(''prompt'', AStr question), (''model'', AStr model)])]"

definition token_param_names :: "string list" where
  "token_param_names = [''max_output_tokens'', ''max_tokens'', ''max_tokens_to_sample'']"

definition temp_param_names :: "string list" where
  "temp_param_names = [''temperature'', ''temp'']"

text \<open>\<open>d[k] = v\<close> on a dictionary kept in insertion order.\<close>

fun dict_set :: "('k \<times> 'v) list \<Rightarrow> 'k \<Rightarrow> 'v \<Rightarrow> ('k \<times> 'v) list" where
  "dict_set [] k v = [(k, v)]"
| "dict_set (p # ps) k v = (if fst p = k then (k, v) # ps else p # dict_set ps k v)"

text \<open>Lines 203 to 212: the two nested loops that fill \<open>augmented_variants\<close>.\<close>

definition augmented_variants ::
  "(string \<times> kwargs) list \<Rightarrow> int \<Rightarrow> rat \<Rightarrow> (string \<times> kwargs) list" where
  "augmented_variants pv max_output_tokens temperature =
     fold (\<lambda>nb acc.
        fold (\<lambda>tk acc'.
           dict_set acc' (fst nb @ ''+'' @ tk)
             (dict_set (snd nb) tk
                (if tk \<in> set token_param_names then AInt max_output_tokens
                 else AFloat temperature)))
          (token_param_names @ temp_param_names) acc)
       pv []"

definition candidate_names :: "string list" where
  "candidate_names = [''generate_content'', ''generate'', ''create'', ''call'', ''generate_text'']"

text \<open>The first name of the list that is a callable attribute of the namespace.\<close>

fun find_callable :: "(string \<rightharpoonup> member) \<Rightarrow> string list \<Rightarrow> (string \<times> signature option) option" where
  "find_callable ns [] = None"
| "find_callable ns (n # rest) =
     (case ns n of Some (Callable sig) \<Rightarrow> Some (n, sig) | _ \<Rightarrow> find_callable ns rest)"

definition find_func :: "client \<Rightarrow> (string \<rightharpoonup> member) \<Rightarrow> func option" where
  "find_func c models_obj =
     (case find_callable models_obj candidate_names of
        Some (n, sig) \<Rightarrow> Some (ModelsAttr n, sig)
      | None \<Rightarrow>
         (case find_callable (members c) [''generate_text'', ''generate''] of
            Some (n, sig) \<Rightarrow> Some (ClientAttr n, sig)
          | None \<Rightarrow> None))"

definition chat_kwargs :: "string \<Rightarrow> string \<Rightarrow> int \<Rightarrow> rat \<Rightarrow> kwargs" where
  "chat_kwargs question model max_output_tokens temperature =
     [(''model'', AStr model), (''messages'', AMessages (messages_variant question)),
      (''temperature'', AFloat temperature), (''max_output_tokens'', AInt max_output_tokens)]"

text \<open>A direct call of the provider followed by \<open>return _extract_text(resp)\<close>.\<close>

definition call_and_extract :: "provider \<Rightarrow> callee \<Rightarrow> kwargs \<Rightarrow> trace \<Rightarrow> (exn + pyval) \<times> trace" where
  "call_and_extract P f kw tr =
     (case P tr f kw of
        Inl e \<Rightarrow> (Inl e, tr @ [Call f kw])
      | Inr resp \<Rightarrow> (extract_text resp, tr @ [Call f kw]))"

text \<open>\<open>resp, trace = _call_with_signature(func, variants); return _extract_text(resp)\<close>\<close>

definition negotiate_and_extract ::
  "provider \<Rightarrow> func \<Rightarrow> (string \<times> kwargs) list \<Rightarrow> trace \<Rightarrow> (exn + pyval) \<times> trace" where
  "negotiate_and_extract P f variants tr =
     (case call_with_signature P f variants tr of
        (Inl e, tr') \<Rightarrow> (Inl e, tr')
      | (Inr (resp, tried), tr') \<Rightarrow> (extract_text resp, tr'))"

text \<open>Lines 139 to 220: the path of the new SDK. It returns or raises, always.\<close>

definition new_sdk_path ::
  "provider \<Rightarrow> client \<Rightarrow> string \<Rightarrow> string \<Rightarrow> int \<Rightarrow> rat \<Rightarrow> trace \<Rightarrow> (exn + pyval) \<times> trace" where
  "new_sdk_path P c question model max_output_tokens temperature tr =
     (if chat_completions_create c
      then call_and_extract P ChatCompletionsCreate
             (chat_kwargs question model max_output_tokens temperature) tr
      else case models c of
        None \<Rightarrow> (Inl (Exn RuntimeError ''genai.Client has no .models attribute''), tr)
      | Some models_obj \<Rightarrow>
         (case find_func c models_obj of
            None \<Rightarrow> (Inl (Exn RuntimeError
                 ''No suitable generate function found on genai client.models or client''), tr)
          | Some f \<Rightarrow>
             (case negotiate_and_extract P f (payload_variants question model) tr of
                (Inr v, tr') \<Rightarrow> (Inr v, tr')
              | (Inl te, tr') \<Rightarrow>
                  if is_TypeError te
                  then negotiate_and_extract P f
                         (augmented_variants (payload_variants question model)
                            max_output_tokens temperature) tr'
                  else (Inl te, tr'))))"

text \<open>Lines 224 to 243: the path of the older SDK.\<close>

definition old_sdk_path ::
  "provider \<Rightarrow> old_sdk \<Rightarrow> string \<Rightarrow> string \<Rightarrow> int \<Rightarrow> rat \<Rightarrow> trace \<Rightarrow> (exn + pyval) \<times> trace" where
  "old_sdk_path P sdk question model max_output_tokens temperature tr =
     (if ChatCompletion_create sdk
      then call_and_extract P OldChatCompletionCreate
             (chat_kwargs question model max_output_tokens temperature) tr
      else if generate_text sdk
      then call_and_extract P OldGenerateText
             [(''model'', AStr model), (''prompt'', AStr question),
              (''max_output_tokens'', AInt max_output_tokens)] tr
      else (Inl (Exn RuntimeError ''No compatible function on older SDK''), tr))"

text \<open>Lines 138 to 245: the body of the outer \<open>try\<close>, one attempt.\<close>

definition attempt_body ::
  "provider \<Rightarrow> globals \<Rightarrow> string \<Rightarrow> string \<Rightarrow> int \<Rightarrow> rat \<Rightarrow> trace \<Rightarrow> (exn + pyval) \<times> trace" where
  "attempt_body P g question model max_output_tokens temperature tr =
     (case (has_new_genai g, client_handle g) of
        (True, Some c) \<Rightarrow> new_sdk_path P c question model max_output_tokens temperature tr
      | _ \<Rightarrow>
        (case (has_old_genai g, old_genai g) of
           (True, Some sdk) \<Rightarrow> old_sdk_path P sdk question model max_output_tokens temperature tr
         | _ \<Rightarrow> (Inl (Exn RuntimeError ''No compatible Google GenAI SDK available''), tr)))"

text \<open>
  Line 250, \<open>backoff * (2 ** attempt)\<close>, with the float held as the rational it
  denotes: the integer power is converted to a float first, which raises from
  \<open>2 ** 1024\<close> on.
\<close>

definition sleep_seconds :: "rat \<Rightarrow> nat \<Rightarrow> exn + rat" where
  "sleep_seconds backoff attempt =
     (if 1024 \<le> attempt then Inl (Exn OverflowError ''int too large to convert to float'')
      else Inr (backoff * 2 ^ attempt))"

text \<open>
  Lines 250 to 252 in the handler of the outer \<open>try\<close>: the sleep is computed and
  \<open>time.sleep\<close> is called; an exception of either leaves the handler and the function.
\<close>

definition backoff_sleep ::
  "(rat \<Rightarrow> exn + unit) \<Rightarrow> rat \<Rightarrow> nat \<Rightarrow> trace \<Rightarrow> exn + trace" where
  "backoff_sleep sleep_fn backoff attempt tr =
     (case sleep_seconds backoff attempt of
        Inl e \<Rightarrow> Inl e
      | Inr d \<Rightarrow> (case sleep_fn d of Inl e \<Rightarrow> Inl e | Inr u \<Rightarrow> Inr (tr @ [Sleep d])))"

text \<open>
  The loop \<open>for attempt in range(retries + 1)\<close> over the attempts still to make, and
  the \<open>raise\<close> after it.
\<close>

fun retry_loop ::
  "(trace \<Rightarrow> (exn + pyval) \<times> trace) \<Rightarrow> (rat \<Rightarrow> exn + unit) \<Rightarrow> int \<Rightarrow> rat \<Rightarrow> nat list
     \<Rightarrow> trace \<Rightarrow> (exn + pyval) \<times> trace" where
  "retry_loop body sleep_fn retries backoff [] tr =
     (Inl (Exn RuntimeError ''Unreachable: ask_gemini_sync failed unexpectedly''), tr)"
| "retry_loop body sleep_fn retries backoff (attempt # rest) tr =
     (case body tr of
        (Inr v, tr') \<Rightarrow> (Inr v, tr')
      | (Inl e, tr') \<Rightarrow>
          if int attempt < retries
          then (case backoff_sleep sleep_fn backoff attempt tr' of
                  Inl err \<Rightarrow> (Inl err, tr')
                | Inr tr'' \<Rightarrow> retry_loop body sleep_fn retries backoff rest tr'')
          else (Inl (RequestFailed (retries + 1) e), tr'))"

definition py_range :: "int \<Rightarrow> nat list" where
  "py_range n = [0 ..< nat n]"

definition blank :: "string \<Rightarrow> bool" where
  "blank question \<longleftrightarrow> question = [] \<or> strip question = []"

definition ask_gemini_sync ::
  "provider \<Rightarrow> globals \<Rightarrow> string \<Rightarrow> string \<Rightarrow> int \<Rightarrow> rat \<Rightarrow> int \<Rightarrow> rat \<Rightarrow> trace
     \<Rightarrow> (exn + pyval) \<times> trace" where
  "ask_gemini_sync P g question model max_output_tokens temperature retries backoff tr =
     (if blank question then (Inr (PStr []), tr)
      else retry_loop (attempt_body P g question model max_output_tokens temperature)
             (time_sleep g) retries backoff (py_range (retries + 1)) tr)"

section \<open>Module initialisation of \<open>ai_client.py\<close>\<close>

text \<open>
  What the import of the module finds: the environment variables, and for each SDK
  whether its import succeeds and what its constructor or \<open>configure\<close> does.
\<close>

record new_genai_sdk =
  Client_with_key :: "string \<Rightarrow> exn + client"
  Client_default :: "exn + client"

record old_genai_sdk =
  configure :: "string option \<Rightarrow> exn + unit"
  sdk_module :: old_sdk

record environment =
  GEMINI_KEY :: "string option"
  GEMINI_MODEL :: "string option"
  time_module_sleep :: "rat \<Rightarrow> exn + unit"
  google_genai :: "new_genai_sdk option"
  google_generativeai :: "old_genai_sdk option"

text \<open>Lines 20 to 29: \<open>(_has_new_genai, _client)\<close>.\<close>

definition init_new :: "environment \<Rightarrow> bool \<times> client option" where
  "init_new env =
     (case google_genai env of
        None \<Rightarrow> (False, None)
      | Some sdk \<Rightarrow>
         (case (case GEMINI_KEY env of
                  Some (k # ks) \<Rightarrow> Client_with_key sdk (k # ks)
                | _ \<Rightarrow> Client_default sdk) of
            Inr c \<Rightarrow> (True, Some c)
          | Inl e \<Rightarrow>
             (case Client_default sdk of
                Inr c \<Rightarrow> (True, Some c)
              | Inl e' \<Rightarrow> (False, None))))"

text \<open>Lines 32 to 39: \<open>(_has_old_genai, _old_genai)\<close>.\<close>

definition init_old :: "environment \<Rightarrow> bool \<times> old_sdk option" where
  "init_old env =
     (case google_generativeai env of
        None \<Rightarrow> (False, None)
      | Some sdk \<Rightarrow>
         (case configure sdk (GEMINI_KEY env) of
            Inl e \<Rightarrow> (False, None)
          | Inr u \<Rightarrow> (True, Some (sdk_module sdk))))"

definition module_init :: "environment \<Rightarrow> exn + globals" where
  "module_init env =
     (let (new, c) = init_new env;
          (old, sdk) = (if \<not> new then init_old env else (False, None))
      in if \<not> new \<and> \<not> old
         then Inl (Exn ImportError
           ''No Google GenAI SDK found. Install `google-genai` or `google-generativeai`.'')
         else Inr \<lparr>DEFAULT_MODEL = (case GEMINI_MODEL env of None \<Rightarrow> ''gemini-2.5-flash'' | Some m \<Rightarrow> m),
                   time_sleep = time_module_sleep env,
                   has_new_genai = new, client_handle = c,
                   has_old_genai = old, old_genai = sdk\<rparr>)"

text \<open>
  What a caller gets that imports the module, as \<open>main.py\<close> does at line 20, and then
  calls \<open>ask_gemini_sync(q)\<close> with its defaults, as line 121 does: the exception of the
  import when the import fails, and the outcome of the call otherwise.
\<close>

definition import_and_ask :: "environment \<Rightarrow> provider \<Rightarrow> string \<Rightarrow> trace \<Rightarrow> (exn + pyval) \<times> trace" where
  "import_and_ask env P q tr =
     (case module_init env of
        Inl e \<Rightarrow> (Inl e, tr)
      | Inr g \<Rightarrow> ask_gemini_sync P g q (DEFAULT_MODEL g) 512 (1 / 5) 2 1 tr)"

section \<open>The HTTP layer: \<open>save_qa\<close> and \<open>POST /ask\<close>\<close>

text \<open>
  The database: what \<open>database.execute\<close> of the insert returns or raises, given
  everything that happened before.
\<close>

type_synonym database = "trace \<Rightarrow> string \<Rightarrow> pyval \<Rightarrow> exn + pyval"

definition save_qa :: "database option \<Rightarrow> string \<Rightarrow> pyval \<Rightarrow> trace \<Rightarrow> (exn + pyval) \<times> trace" where
  "save_qa database q a tr =
     (case database of
        None \<Rightarrow> (Inr PNone, tr)
      | Some execute \<Rightarrow>
         (case execute tr q a of
            Inr inserted_id \<Rightarrow> (Inr inserted_id, tr @ [Execute q a])
          | Inl e \<Rightarrow> (Inl e, tr @ [Execute q a])))"

text \<open>
  The globals \<open>save_qa\<close> and \<open>db\<close> of \<open>main.py\<close>: whether \<open>save_qa\<close> was bound, and the
  database object when there is one. \<open>coerce_answer\<close> is what the response model
  \<open>AskResponse\<close> makes of an answer that is not a \<open>str\<close>: the string it converts it to,
  or \<open>None\<close> when its validation fails (the installed pydantic decides).
\<close>

record app =
  save_qa_bound :: bool
  db :: "database option"
  coerce_answer :: "pyval \<Rightarrow> string option"

record AskRequest =
  question :: string

record AskResponse =
  answer :: string
  source :: "string option"

datatype http_error = HTTPException nat string | ResponseValidationError

definition ask ::
  "provider \<Rightarrow> globals \<Rightarrow> app \<Rightarrow> AskRequest \<Rightarrow> trace \<Rightarrow> (http_error + AskResponse) \<times> trace" where
  "ask P g a request tr =
     (let q = strip (question request) in
      if q = [] then (Inl (HTTPException 400 ''Question is required''), tr)
      else
        case ask_gemini_sync P g q (DEFAULT_MODEL g) 512 (1 / 5) 2 1 tr of
          (Inl e, tr1) \<Rightarrow> (Inl (HTTPException 502 ''AI service error''), tr1 @ [LogException e])
        | (Inr v, tr1) \<Rightarrow>
           (let tr2 =
              (if save_qa_bound a \<and> db a \<noteq> None
               then (case save_qa (db a) q v tr1 of
                       (Inr inserted_id, t) \<Rightarrow> t
                     | (Inl e, t) \<Rightarrow> t @ [LogWarning e])
               else tr1)
            in case v of
                 PStr s \<Rightarrow> (Inr \<lparr>answer = s, source = Some ''gemini''\<rparr>, tr2)
               | _ \<Rightarrow>
                  (case coerce_answer a v of
                     Some s \<Rightarrow> (Inr \<lparr>answer = s, source = Some ''gemini''\<rparr>, tr2)
                   | None \<Rightarrow> (Inl ResponseValidationError, tr2))))"

section \<open>Reading a trace\<close>


text \<open>The provider calls of a trace, in order.\<close>

fun calls :: "trace \<Rightarrow> (callee \<times> kwargs) list" where
  "calls [] = []"
| "calls (Call f kw # es) = (f, kw) # calls es"
| "calls (e # es) = calls es"


section \<open>Shape negotiation as the specification words it\<close>

text \<open>
  The keyword arguments of the candidates that are not skipped, in the order of the
  candidates: the calls \<open>_call_with_signature\<close> can make.
\<close>

definition callable_kwargs :: "signature option \<Rightarrow> (string \<times> kwargs) list \<Rightarrow> kwargs list" where
  "callable_kwargs sig variants = List.map_filter (\<lambda>v. call_kwargs sig (snd v)) variants"

text \<open>
  What the provider answers when the callable \<open>f\<close> is called with each of the given
  keyword arguments in turn, starting in the world \<open>tr\<close>.
\<close>

fun replay :: "provider \<Rightarrow> callee \<Rightarrow> trace \<Rightarrow> kwargs list \<Rightarrow> (exn + pyval) list" where
  "replay P f tr [] = []"
| "replay P f tr (kw # kws) = P tr f kw # replay P f (tr @ [Call f kw]) kws"

text \<open>The call raised a \<open>TypeError\<close>: what the handler of line 115 catches.\<close>

definition raises_TypeError :: "exn + pyval \<Rightarrow> bool" where
  "raises_TypeError r = (case r of Inl e \<Rightarrow> is_TypeError e | Inr v \<Rightarrow> False)"



text \<open>The declared parameters accept every key of the payload.\<close>

definition accepts_all_keys :: "signature \<Rightarrow> kwargs \<Rightarrow> bool" where
  "accepts_all_keys sg kw \<longleftrightarrow> set (map fst kw) \<subseteq> set (map fst sg)"

text \<open>The declared parameters accept no key of the payload.\<close>

definition accepts_no_key :: "signature \<Rightarrow> kwargs \<Rightarrow> bool" where
  "accepts_no_key sg kw \<longleftrightarrow> set (map fst kw) \<inter> set (map fst sg) = {}"

text \<open>
  The augmented candidates: each base candidate once per alias, with that one key
  added, the token aliases carrying the token limit and the temperature aliases the
  temperature.
\<close>

definition spec_augmented ::
  "(string \<times> kwargs) list \<Rightarrow> int \<Rightarrow> rat \<Rightarrow> (string \<times> kwargs) list" where
  "spec_augmented pv max_output_tokens temperature =
     concat (map (\<lambda>nb.
        map (\<lambda>tk. (fst nb @ ''+'' @ tk, snd nb @ [(tk, AInt max_output_tokens)])) token_param_names @
        map (\<lambda>tk. (fst nb @ ''+'' @ tk, snd nb @ [(tk, AFloat temperature)])) temp_param_names) pv)"

text \<open>A candidate has a token-limit key and a temperature key at once.\<close>

definition has_token_and_temperature :: "string \<times> kwargs \<Rightarrow> bool" where
  "has_token_and_temperature v \<longleftrightarrow>
     list_ex (\<lambda>k. k \<in> set token_param_names) (map fst (snd v)) \<and>
     list_ex (\<lambda>k. k \<in> set temp_param_names) (map fst (snd v))"

text \<open>
  Keyword arguments that carry \<open>contents\<close> together with \<open>max_output_tokens\<close>, and the
  candidate \<open>contents+max_output_tokens\<close> of the augmented set.
\<close>

definition contents_with_tokens :: "kwargs \<Rightarrow> bool" where
  "contents_with_tokens kw \<longleftrightarrow>
     ''contents'' \<in> set (map fst kw) \<and> ''max_output_tokens'' \<in> set (map fst kw)"

definition contents_tokens_payload :: "string \<Rightarrow> string \<Rightarrow> int \<Rightarrow> kwargs" where
  "contents_tokens_payload q model max_output_tokens =
     [(''contents'', AStrList [q]), (''model'', AStr model),
      (''max_output_tokens'', AInt max_output_tokens)]"

section \<open>Concrete worlds used as examples\<close>

text \<open>A provider whose every call raises the same exception.\<close>

definition always_raising :: "exn \<Rightarrow> provider" where
  "always_raising e = (\<lambda>tr f kw. Inl e)"

text \<open>A provider whose every call returns the same response.\<close>

definition always_returning :: "pyval \<Rightarrow> provider" where
  "always_returning resp = (\<lambda>tr f kw. Inr resp)"

text \<open>
  A new-SDK client without chat completions whose \<open>models\<close> namespace has the one callable
  \<open>generate_content\<close>, with the signature given.
\<close>

definition models_client :: "signature option \<Rightarrow> client" where
  "models_client sig =
     \<lparr>chat_completions_create = False,
      models = Some [''generate_content'' \<mapsto> Callable sig],
      members = Map.empty\<rparr>"

text \<open>
  \<open>time.sleep\<close> of CPython: a negative argument is refused, and so is one that does
  not fit the 64-bit count of nanoseconds it is converted to. (Within the uptime of
  the machine below that bound the system call refuses the deadline instead; the
  examples stay far from there.)
\<close>

definition cpython_sleep :: "rat \<Rightarrow> exn + unit" where
  "cpython_sleep d =
     (if d < 0 then Inl (Exn ValueError ''sleep length must be non-negative'')
      else if 2 ^ 63 \<le> d * 10 ^ 9
      then Inl (Exn OverflowError ''timestamp out of range for platform time_t'')
      else Inr ())"

definition new_sdk_globals :: "signature option \<Rightarrow> globals" where
  "new_sdk_globals sig =
     \<lparr>DEFAULT_MODEL = ''gemini-2.5-flash'', time_sleep = cpython_sleep, has_new_genai = True,
      client_handle = Some (models_client sig), has_old_genai = False, old_genai = None\<rparr>"

text \<open>Responses of the shapes the specification lists.\<close>

text \<open>An object with the attributes given whose \<open>str\<close> and \<open>repr\<close> are \<open>obj\<close>.\<close>

definition plain_object :: "(string \<times> pyval) list \<Rightarrow> pyval" where
  "plain_object attrs = PObj (Inr ''obj'') (Inr ''obj'') None attrs"

definition output_response :: pyval where
  "output_response =
     plain_object [(''output'', PList [plain_object
        [(''content'', PList [PDict [(''text'', PStr '' hi '')]])]])]"

definition candidates_response :: pyval where
  "candidates_response =
     plain_object [(''candidates'', PList [plain_object
        [(''content'', PList [plain_object [(''text'', PStr ''x'')]])]])]"

definition text_response :: pyval where
  "text_response = plain_object [(''text'', PStr ''y'')]"

definition unrecognized_response :: pyval where
  "unrecognized_response = PDict [(''answer'', PInt 42)]"

text \<open>
  The examples of section 8 of the specification read as dictionaries.
\<close>

definition dict_output_response :: pyval where
  "dict_output_response =
     PDict [(''output'', PList [PDict [(''content'', PList [PDict [(''text'', PStr '' hi '')]])]])]"

definition dict_text_response :: pyval where
  "dict_text_response = PDict [(''text'', PStr ''y'')]"

text \<open>Objects whose top-level \<open>text\<close> is the empty string, an integer, bytes.\<close>

definition empty_text_response :: pyval where
  "empty_text_response = plain_object [(''text'', PStr [])]"

definition int_text_response :: pyval where
  "int_text_response = plain_object [(''text'', PInt 5)]"

definition bytes_text_response :: pyval where
  "bytes_text_response = plain_object [(''text'', PBytes '' hi '')]"

text \<open>
  An object without attributes whose string form is empty, and one whose \<open>__str__\<close>
  raises.
\<close>

definition empty_str_response :: pyval where
  "empty_str_response = PObj (Inr []) (Inr ''Model()'') None []"

definition raising_str_response :: pyval where
  "raising_str_response =
     PObj (Inl (Exn OtherException ''boom'')) (Inl (Exn OtherException ''boom'')) None []"

text \<open>The \<open>contents\<close> candidate for the question \<open>hi\<close> and the model \<open>m\<close>.\<close>

definition contents_payload :: kwargs where
  "contents_payload = [(''contents'', AStrList [''hi'']), (''model'', AStr ''m'')]"

text \<open>The signature of \<open>def generate_content(model)\<close>.\<close>

definition model_only :: signature where
  "model_only = [(''model'', POSITIONAL_OR_KEYWORD)]"

text \<open>
  A provider stub that fails signature matching unless \<open>contents\<close> comes with
  \<open>max_output_tokens\<close>, and then returns the response given.
\<close>

definition tokens_stub :: "pyval \<Rightarrow> provider" where
  "tokens_stub resp =
     (\<lambda>tr f kw. if contents_with_tokens kw then Inr resp
                 else Inl (ArgumentMismatch ''unexpected keyword arguments''))"

text \<open>The signature of \<open>def generate_content(contents, model, max_output_tokens)\<close>.\<close>

definition contents_model_tokens :: signature where
  "contents_model_tokens =
     [(''contents'', POSITIONAL_OR_KEYWORD), (''model'', POSITIONAL_OR_KEYWORD),
      (''max_output_tokens'', POSITIONAL_OR_KEYWORD)]"

text \<open>An environment in which neither SDK can be imported.\<close>

definition no_sdk_environment :: environment where
  "no_sdk_environment =
     \<lparr>GEMINI_KEY = None, GEMINI_MODEL = None, time_module_sleep = cpython_sleep,
      google_genai = None, google_generativeai = None\<rparr>"

text \<open>
  An environment with a key in which both SDKs can be imported and set up; the new
  SDK gives the client named.
\<close>

definition both_sdk_environment :: "client \<Rightarrow> environment" where
  "both_sdk_environment c =
     \<lparr>GEMINI_KEY = Some ''key'', GEMINI_MODEL = None, time_module_sleep = cpython_sleep,
      google_genai = Some \<lparr>Client_with_key = (\<lambda>k. Inr c), Client_default = Inr c\<rparr>,
      google_generativeai = Some \<lparr>configure = (\<lambda>k. Inr ()),
         sdk_module = \<lparr>ChatCompletion_create = False, generate_text = True\<rparr>\<rparr>\<rparr>"

text \<open>An environment in which only the older SDK can be imported.\<close>

definition old_sdk_environment :: environment where
  "old_sdk_environment =
     \<lparr>GEMINI_KEY = Some ''key'', GEMINI_MODEL = None, time_module_sleep = cpython_sleep,
      google_genai = None,
      google_generativeai = Some \<lparr>configure = (\<lambda>k. Inr ()),
         sdk_module = \<lparr>ChatCompletion_create = False, generate_text = True\<rparr>\<rparr>\<rparr>"

text \<open>A database whose every insert raises, and the application bound to it.\<close>

definition failing_database :: database where
  "failing_database = (\<lambda>tr q a. Inl (Exn OtherException ''connection refused''))"

text \<open>
  \<open>bytes.decode()\<close> onto the characters of this model, which are the code points below
  256: one byte below \<open>0x80\<close>, or the two bytes of a code point from \<open>0x80\<close> to \<open>0xFF\<close>.
  Decoding fails for bytes that are not UTF-8; text with a code point from 256 on has
  no string in the model and is refused as well.
\<close>

fun utf8_decode :: "string \<Rightarrow> string option" where
  "utf8_decode [] = Some []"
| "utf8_decode [c] = (if (of_char c :: nat) < 128 then Some [c] else None)"
| "utf8_decode (c # d # cs) =
     (if (of_char c :: nat) < 128 then map_option ((#) c) (utf8_decode (d # cs))
      else if ((of_char c :: nat) = 194 \<or> (of_char c :: nat) = 195) \<and>
              128 \<le> (of_char d :: nat) \<and> (of_char d :: nat) < 192
      then map_option ((#) (char_of ((of_char c - 192) * 64 + (of_char d - 128) :: nat)))
             (utf8_decode cs)
      else None)"

text \<open>
  What the field \<open>answer: str\<close> of the response model makes of a value under pydantic 2:
  a \<open>str\<close> is kept, bytes are decoded as UTF-8, any other value is refused.
\<close>

definition str_field :: "pyval \<Rightarrow> string option" where
  "str_field v = (case v of PStr s \<Rightarrow> Some s | PBytes b \<Rightarrow> utf8_decode b | _ \<Rightarrow> None)"

definition app_with_failing_database :: app where
  "app_with_failing_database =
     \<lparr>save_qa_bound = True, db = Some failing_database, coerce_answer = str_field\<rparr>"

definition app_without_database :: app where
  "app_without_database = \<lparr>save_qa_bound = False, db = None, coerce_answer = str_field\<rparr>"

text \<open>A response whose \<open>text\<close> is the one byte \<open>0xFF\<close>, which no UTF-8 text contains.\<close>

definition invalid_utf8_response :: pyval where
  "invalid_utf8_response = plain_object [(''text'', PBytes [CHR 0xFF])]"

section \<open>Properties of response normalization\<close>

lemma spec_trimmed_str: "spec_trimmed (Some (PStr t)) = Some (PStr (strip t))"
  by (simp add: spec_trimmed_def)

lemma strip_text_spec:
  "except_pass (if truthy (part_text p)
      then (case call_strip (part_text p) of Inl e \<Rightarrow> Inl e | Inr v \<Rightarrow> Inr (Some v))
      else Inr None) = spec_trimmed (spec_has_text p)"
  by (cases p)
     (auto simp: part_text_def except_pass_def spec_trimmed_def Let_def
        split: option.splits sum.splits)

lemma guard_step:
  "except_pass (if \<not> truthy v then Inr None else
      case py_len v of Inl e \<Rightarrow> Inl e | Inr n \<Rightarrow>
      if \<not> n > 0 then Inr None else
      case py_index0 v of Inl e \<Rightarrow> Inl e | Inr x \<Rightarrow> F x)
   = (case v of PList (x # xs) \<Rightarrow> except_pass (F x)
      | PStr (c # cs) \<Rightarrow> except_pass (F (PStr [c]))
      | PBytes (c # cs) \<Rightarrow> except_pass (F (PInt (of_char c)))
      | _ \<Rightarrow> None)"
  by (cases v) (auto simp: except_pass_def split: list.splits)

lemma content_step:
  "except_pass (if \<not> truthy (getattr_None first ''content'') then Inr None else
      case py_len (getattr_None first ''content'') of Inl e \<Rightarrow> Inl e | Inr m \<Rightarrow>
      if \<not> m > 0 then Inr None else
      case py_index0 (getattr_None first ''content'') of Inl e \<Rightarrow> Inl e | Inr part \<Rightarrow>
      if truthy (part_text part)
      then (case call_strip (part_text part) of Inl e \<Rightarrow> Inl e | Inr v \<Rightarrow> Inr (Some v))
      else Inr None)
   = (case spec_first_of_list_attr ''content'' first of None \<Rightarrow> None
      | Some part \<Rightarrow> spec_trimmed (spec_has_text part))"
  unfolding guard_step strip_text_spec
  by (cases first) (auto simp: spec_trimmed_def split: option.splits pyval.splits list.splits)

lemma try_first_part_spec:
  "except_pass (try_first_part name resp) = spec_trimmed (spec_list_text name resp)"
  unfolding try_first_part_def Let_def
  apply (subst guard_step)
  unfolding content_step spec_list_text_def
  by (cases resp) (auto simp: spec_trimmed_def split: option.splits pyval.splits list.splits)

lemma try_text_spec:
  "except_pass (try_text resp) = spec_trimmed (spec_top_text resp)"
  by (cases resp)
     (auto simp: try_text_def except_pass_def spec_trimmed_def Let_def
        split: option.splits sum.splits)

lemma extract_text_spec: "extract_text resp = spec_extract resp"
  by (simp add: extract_text_def spec_extract_def try_first_part_spec try_text_spec
        split: option.splits)

lemma dec_nat_nonempty: "dec_nat n \<noteq> []"
  by (subst dec_nat.simps) simp

lemma py_repr_nonempty:
  assumes "py_repr v = Inr s" and "\<forall>st r m attrs. v \<noteq> PObj st r m attrs"
  shows "s \<noteq> []"
proof (cases v)
  case PNone
  then show ?thesis using assms by auto
next
  case (PBool b)
  then show ?thesis using assms by (cases b) auto
next
  case (PInt i)
  then show ?thesis using assms by (cases "i < 0") (auto simp: dec_int_def dec_nat_nonempty)
next
  case (PStr t)
  then show ?thesis using assms by (auto simp: repr_str_def)
next
  case (PBytes b)
  then show ?thesis using assms by (auto simp: repr_bytes_def)
next
  case (PList xs)
  then show ?thesis
    using assms by (cases "first_raise (map py_repr xs)") auto
next
  case (PDict kvs)
  then show ?thesis
    using assms by (cases "first_raise (map (\<lambda>kv. py_repr (snd kv)) kvs)") auto
next
  case (PObj st r m attrs)
  then show ?thesis using assms by simp
qed

lemma py_str_nonempty:
  assumes "py_str resp = Inr s" and "resp \<noteq> PStr []"
    and "\<forall>r m attrs. resp \<noteq> PObj (Inr []) r m attrs"
  shows "s \<noteq> []"
proof (cases resp)
  case (PStr t)
  then show ?thesis using assms by auto
next
  case (PObj st r m attrs)
  then show ?thesis using assms by auto
qed (use assms py_repr_nonempty [of resp s] in auto)

lemma spec_no_path_extract: "spec_no_path resp \<Longrightarrow> spec_extract resp = return_str resp"
  by (simp add: spec_no_path_def spec_extract_def)

lemma spec_extract_raises:
  "spec_extract resp = Inl e \<Longrightarrow> spec_no_path resp \<and> py_str resp = Inl e"
  by (auto simp: spec_extract_def spec_no_path_def return_str_def split: option.splits sum.splits)

lemma spec_trimmed_str_or_absent:
  "is_str_or_absent t \<Longrightarrow> spec_trimmed t = Some v \<Longrightarrow> \<exists>s. v = PStr s"
  by (auto simp: is_str_or_absent_def spec_trimmed_def split: option.splits pyval.splits)

text \<open>
  Claim C3, as the code has it. \<open>_extract_text\<close> tries the three paths in the order
  \<open>output\<close>, \<open>candidates\<close>, top-level \<open>text\<close>. A path is read through object attributes
  (only the innermost element may instead be a dictionary with the key \<open>text\<close>), its
  text must count as true, and it gives a result when \<open>strip()\<close> of the text does not
  raise; for a text that is a string the result is the trimmed string. The result of
  the first path that gives one is returned. When no path gives a result, \<open>str\<close> of the
  whole response is returned, and that string is not empty unless the response is the
  empty string or an object whose own string form is empty.
\<close>

theorem extract_text_paths:
  "extract_text resp = spec_extract resp \<and>
   (\<forall>t. spec_list_text ''output'' resp = Some (PStr t) \<longrightarrow>
        extract_text resp = Inr (PStr (strip t))) \<and>
   (\<forall>t. spec_trimmed (spec_list_text ''output'' resp) = None \<and>
        spec_list_text ''candidates'' resp = Some (PStr t) \<longrightarrow>
        extract_text resp = Inr (PStr (strip t))) \<and>
   (\<forall>t. spec_trimmed (spec_list_text ''output'' resp) = None \<and>
        spec_trimmed (spec_list_text ''candidates'' resp) = None \<and>
        spec_top_text resp = Some (PStr t) \<longrightarrow>
        extract_text resp = Inr (PStr (strip t))) \<and>
   (spec_no_path resp \<longrightarrow> extract_text resp = return_str resp) \<and>
   (\<forall>s. spec_no_path resp \<and> py_str resp = Inr s \<and> resp \<noteq> PStr [] \<and>
        (\<forall>r m attrs. resp \<noteq> PObj (Inr []) r m attrs) \<longrightarrow>
        extract_text resp = Inr (PStr s) \<and> s \<noteq> [])"
proof (intro conjI allI impI)
  show "extract_text resp = spec_extract resp"
    by (rule extract_text_spec)
next
  fix t
  assume "spec_list_text ''output'' resp = Some (PStr t)"
  then show "extract_text resp = Inr (PStr (strip t))"
    by (simp add: extract_text_spec spec_extract_def spec_trimmed_str)
next
  fix t
  assume "spec_trimmed (spec_list_text ''output'' resp) = None \<and>
        spec_list_text ''candidates'' resp = Some (PStr t)"
  then show "extract_text resp = Inr (PStr (strip t))"
    by (simp add: extract_text_spec spec_extract_def spec_trimmed_str)
next
  fix t
  assume "spec_trimmed (spec_list_text ''output'' resp) = None \<and>
        spec_trimmed (spec_list_text ''candidates'' resp) = None \<and>
        spec_top_text resp = Some (PStr t)"
  then show "extract_text resp = Inr (PStr (strip t))"
    by (simp add: extract_text_spec spec_extract_def spec_trimmed_str)
next
  assume "spec_no_path resp"
  then show "extract_text resp = return_str resp"
    by (simp add: extract_text_spec spec_no_path_extract)
next
  fix s
  assume h: "spec_no_path resp \<and> py_str resp = Inr s \<and> resp \<noteq> PStr [] \<and>
        (\<forall>r m attrs. resp \<noteq> PObj (Inr []) r m attrs)"
  then show "extract_text resp = Inr (PStr s)"
    by (simp add: extract_text_spec spec_no_path_extract return_str_def)
  show "s \<noteq> []"
    using h py_str_nonempty [of resp s] by blast
qed

theorem extract_text_paths_witness:
  "spec_list_text ''output'' output_response = Some (PStr '' hi '') \<and>
   extract_text output_response = Inr (PStr ''hi'') \<and>
   spec_trimmed (spec_list_text ''output'' candidates_response) = None \<and>
   spec_list_text ''candidates'' candidates_response = Some (PStr ''x'') \<and>
   extract_text candidates_response = Inr (PStr ''x'') \<and>
   spec_trimmed (spec_list_text ''output'' text_response) = None \<and>
   spec_trimmed (spec_list_text ''candidates'' text_response) = None \<and>
   spec_top_text text_response = Some (PStr ''y'') \<and>
   extract_text text_response = Inr (PStr ''y'') \<and>
   spec_no_path unrecognized_response \<and>
   py_str unrecognized_response = Inr ''{'answer': 42}'' \<and>
   unrecognized_response \<noteq> PStr [] \<and>
   (\<forall>r m attrs. unrecognized_response \<noteq> PObj (Inr []) r m attrs) \<and>
   extract_text unrecognized_response = Inr (PStr ''{'answer': 42}'')"
proof -
  have a: "spec_list_text ''output'' output_response = Some (PStr '' hi '')"
      "strip '' hi '' = ''hi''"
      "spec_trimmed (spec_list_text ''output'' candidates_response) = None"
      "spec_list_text ''candidates'' candidates_response = Some (PStr ''x'')"
      "strip ''x'' = ''x''"
      "spec_trimmed (spec_list_text ''output'' text_response) = None"
      "spec_trimmed (spec_list_text ''candidates'' text_response) = None"
      "spec_top_text text_response = Some (PStr ''y'')"
      "strip ''y'' = ''y''"
      "spec_no_path unrecognized_response"
      "py_str unrecognized_response = Inr ''{'answer': 42}''"
    by code_simp+
  have b: "unrecognized_response \<noteq> PStr []"
      "\<forall>r m attrs. unrecognized_response \<noteq> PObj (Inr []) r m attrs"
    by (simp_all add: unrecognized_response_def)
  have r1: "extract_text output_response = Inr (PStr ''hi'')"
    using extract_text_paths [of output_response, THEN conjunct2, THEN conjunct1] a by simp
  have r2: "extract_text candidates_response = Inr (PStr ''x'')"
    using extract_text_paths [of candidates_response, THEN conjunct2, THEN conjunct2, THEN conjunct1] a by simp
  have r3: "extract_text text_response = Inr (PStr ''y'')"
    using extract_text_paths [of text_response, THEN conjunct2, THEN conjunct2, THEN conjunct2, THEN conjunct1] a by simp
  have r4: "extract_text unrecognized_response = Inr (PStr ''{'answer': 42}'')"
    using extract_text_paths [of unrecognized_response, THEN conjunct2, THEN conjunct2, THEN conjunct2, THEN conjunct2, THEN conjunct2] a b by simp
  show ?thesis
    using a b r1 r2 r3 r4 by simp
qed

text \<open>
  Claim C3 as stated fails in each of these ways. The examples of the specification
  read as dictionaries match no path, since \<open>output\<close> and \<open>text\<close> are looked up as
  attributes: the result is the string form of the dictionary. A top-level \<open>text\<close> that
  is the empty string, or that has no \<open>strip\<close>, is passed over. The empty string and
  an object with an empty string form are unrecognized shapes whose string form is
  empty.
\<close>

theorem extract_text_unmatched_shapes:
  "extract_text dict_output_response =
     Inr (PStr ''{'output': [{'content': [{'text': ' hi '}]}]}'') \<and>
   extract_text dict_text_response = Inr (PStr ''{'text': 'y'}'') \<and>
   extract_text empty_text_response = Inr (PStr ''obj'') \<and>
   extract_text int_text_response = Inr (PStr ''obj'') \<and>
   extract_text (PStr []) = Inr (PStr []) \<and>
   extract_text empty_str_response = Inr (PStr [])"
  by code_simp

lemma extract_text_str:
  assumes h: "spec_texts_are_str resp \<and> extract_text resp = Inr v"
  shows "\<exists>s. v = PStr s"
proof -
  from h have r: "spec_extract resp = Inr v" by (simp add: extract_text_spec)
  from h have a: "is_str_or_absent (spec_list_text ''output'' resp)"
    and b: "is_str_or_absent (spec_list_text ''candidates'' resp)"
    and c: "is_str_or_absent (spec_top_text resp)"
    by (simp_all add: spec_texts_are_str_def)
  show ?thesis
  proof (cases "spec_trimmed (spec_list_text ''output'' resp)")
    case (Some x)
    then show ?thesis using r spec_trimmed_str_or_absent [OF a Some] by (simp add: spec_extract_def)
  next
    case n1: None
    show ?thesis
    proof (cases "spec_trimmed (spec_list_text ''candidates'' resp)")
      case (Some x)
      then show ?thesis
        using r n1 spec_trimmed_str_or_absent [OF b Some] by (simp add: spec_extract_def)
    next
      case n2: None
      show ?thesis
      proof (cases "spec_trimmed (spec_top_text resp)")
        case (Some x)
        then show ?thesis
          using r n1 n2 spec_trimmed_str_or_absent [OF c Some] by (simp add: spec_extract_def)
      next
        case None
        then show ?thesis
          using r n1 n2 by (auto simp: spec_extract_def return_str_def split: sum.splits)
      qed
    qed
  qed
qed

text \<open>
  Claim C10, as the code has it. No exception raised inside the three guarded blocks
  leaves \<open>_extract_text\<close>: it returns whenever a path gives a result or \<open>str\<close> of the
  response returns, and it raises only what the \<open>str(resp)\<close> of its last line raises,
  when no path gave a result. Its result is a string whenever every text found on a
  path is a string.
\<close>

theorem extract_text_raises_only_from_str:
  "((\<exists>s. py_str resp = Inr s) \<or> \<not> spec_no_path resp \<longrightarrow> (\<exists>v. extract_text resp = Inr v)) \<and>
   (\<forall>e. extract_text resp = Inl e \<longrightarrow> spec_no_path resp \<and> py_str resp = Inl e) \<and>
   (\<forall>v. spec_texts_are_str resp \<and> extract_text resp = Inr v \<longrightarrow> (\<exists>s. v = PStr s))"
proof (intro conjI allI impI)
  assume "(\<exists>s. py_str resp = Inr s) \<or> \<not> spec_no_path resp"
  then show "\<exists>v. extract_text resp = Inr v"
    using spec_extract_raises [of resp] by (cases "spec_extract resp") (auto simp: extract_text_spec)
next
  fix e
  assume "extract_text resp = Inl e"
  then have "spec_no_path resp \<and> py_str resp = Inl e"
    using spec_extract_raises [of resp e] by (simp add: extract_text_spec)
  then show "spec_no_path resp" and "py_str resp = Inl e"
    by simp_all
next
  fix v
  assume "spec_texts_are_str resp \<and> extract_text resp = Inr v"
  then show "\<exists>s. v = PStr s"
    by (rule extract_text_str)
qed

theorem extract_text_raises_only_from_str_witness:
  "py_str text_response = Inr ''obj'' \<and> \<not> spec_no_path text_response \<and>
   spec_texts_are_str text_response \<and>
   extract_text text_response = Inr (PStr ''y'') \<and>
   extract_text raising_str_response = Inl (Exn OtherException ''boom'') \<and>
   spec_no_path raising_str_response \<and>
   py_str raising_str_response = Inl (Exn OtherException ''boom'')"
proof -
  have a: "py_str text_response = Inr ''obj''" "\<not> spec_no_path text_response"
      "spec_texts_are_str text_response"
      "extract_text text_response = Inr (PStr ''y'')"
      "extract_text raising_str_response = Inl (Exn OtherException ''boom'')"
    by code_simp+
  have r1: "\<exists>v. extract_text text_response = Inr v"
    using extract_text_raises_only_from_str [of text_response] a by simp
  have r2: "spec_no_path raising_str_response \<and>
      py_str raising_str_response = Inl (Exn OtherException ''boom'')"
    using extract_text_raises_only_from_str [of raising_str_response] a by simp
  show ?thesis
    using a r1 r2 by simp
qed

text \<open>
  Claim C10 as stated fails: when \<open>__str__\<close> of the response raises and no path gives a
  result, the exception leaves \<open>_extract_text\<close>; and a text that is bytes is returned
  as bytes, not as a string.
\<close>

theorem extract_text_raises_or_returns_bytes:
  "extract_text raising_str_response = Inl (Exn OtherException ''boom'') \<and>
   extract_text bytes_text_response = Inr (PBytes ''hi'')"
  by code_simp

section \<open>Properties of shape negotiation and of the retry loop\<close>


lemma calls_append: "calls (xs @ ys) = calls xs @ calls ys"
  by (induction xs rule: calls.induct) auto












section \<open>Properties of the invoker\<close>

text \<open>
  Claim C2. A question whose trimmed form is empty (the empty string included) makes
  \<open>ask_gemini_sync\<close> return the empty string at once: no error, and the world is left
  as it was, so there is no provider call, no retry and no sleep.
\<close>

theorem ask_gemini_sync_blank:
  "strip q = [] \<Longrightarrow>
     ask_gemini_sync P g q model max_output_tokens temperature retries backoff tr = (Inr (PStr []), tr)"
  by (simp add: ask_gemini_sync_def blank_def)

theorem ask_gemini_sync_blank_witness:
  "strip [] = [] \<and> strip ''  '' = [] \<and>
   ask_gemini_sync (always_returning text_response) (new_sdk_globals None) [] ''gemini-2.5-flash''
     512 (1 / 5) 2 1 [] = (Inr (PStr []), []) \<and>
   ask_gemini_sync (always_returning text_response) (new_sdk_globals None) ''  '' ''gemini-2.5-flash''
     512 (1 / 5) 2 1 [] = (Inr (PStr []), [])"
  using ask_gemini_sync_blank [of "[]"] ask_gemini_sync_blank [of "''  ''"]
  by (simp add: strip_def is_space_def)




section \<open>Properties of \<open>_call_with_signature\<close>\<close>

lemma callable_kwargs_Cons:
  "callable_kwargs sig ((name, kw) # vs) =
     (case call_kwargs sig kw of None \<Rightarrow> callable_kwargs sig vs
      | Some ck \<Rightarrow> ck # callable_kwargs sig vs)"
  by (simp add: callable_kwargs_def List.map_filter_simps split: option.splits)

lemma callable_kwargs_Nil: "callable_kwargs sig [] = []"
  by (simp add: callable_kwargs_def List.map_filter_simps)

lemma replay_Nil_iff: "replay P f t made = [] \<longleftrightarrow> made = []"
  by (cases made) auto

lemma call_loop_replay:
  "call_loop P f vs tried tr = (r, tr') \<Longrightarrow>
   \<exists>made n. made = take n (callable_kwargs (snd f) vs) \<and>
       tr' = tr @ map (Call (fst f)) made \<and>
       list_all raises_TypeError (butlast (replay P (fst f) tr made)) \<and>
       (\<forall>res. r = Inr res \<longrightarrow> made \<noteq> [] \<and> last (replay P (fst f) tr made) = Inr (fst res)) \<and>
       (\<forall>e. r = Inl e \<longrightarrow> is_TypeError e \<longrightarrow>
            made = callable_kwargs (snd f) vs \<and>
            list_all raises_TypeError (replay P (fst f) tr made)) \<and>
       (\<forall>e. r = Inl e \<longrightarrow> \<not> is_TypeError e \<longrightarrow>
            made \<noteq> [] \<and> last (replay P (fst f) tr made) = Inl e)"
proof (induction vs arbitrary: tried tr)
  case Nil
  then show ?case by (auto simp: callable_kwargs_Nil)
next
  case (Cons v vs)
  obtain name kw where v: "v = (name, kw)" by (cases v)
  show ?case
  proof (cases "call_kwargs (snd f) kw")
    case None
    then have loop: "call_loop P f vs (tried @ [(name, Skipped)]) tr = (r, tr')"
      using Cons.prems v by simp
    have same: "callable_kwargs (snd f) (v # vs) = callable_kwargs (snd f) vs"
      using None by (simp add: v callable_kwargs_Cons)
    show ?thesis
      unfolding same by (rule Cons.IH [OF loop])
  next
    case (Some ck)
    have cs: "callable_kwargs (snd f) (v # vs) = ck # callable_kwargs (snd f) vs"
      using Some by (simp add: v callable_kwargs_Cons)
    show ?thesis
    proof (cases "P tr (fst f) ck")
      case (Inr resp)
      then have "r = Inr (resp, tried @ [(name, Trying (map fst ck))])" "tr' = tr @ [Call (fst f) ck]"
        using Cons.prems Some v by auto
      then show ?thesis
        unfolding cs using Inr by (intro exI [of _ "[ck]"] exI [of _ "Suc 0"]) simp
    next
      case (Inl e)
      show ?thesis
      proof (cases "is_TypeError e")
        case False
        then have "r = Inl e" "tr' = tr @ [Call (fst f) ck]"
          using Cons.prems Some v Inl by auto
        then show ?thesis
          unfolding cs using Inl False by (intro exI [of _ "[ck]"] exI [of _ "Suc 0"]) simp
      next
        case True
        then have loop: "call_loop P f vs
            (tried @ [(name, Trying (map fst ck)), (name, TypeErrorNote e)]) (tr @ [Call (fst f) ck]) = (r, tr')"
          using Cons.prems Some v Inl by simp
        let ?t1 = "tr @ [Call (fst f) ck]"
        from Cons.IH [OF loop] obtain made n where
          m1: "made = take n (callable_kwargs (snd f) vs)" and
          m2: "tr' = ?t1 @ map (Call (fst f)) made" and
          m3: "list_all raises_TypeError (butlast (replay P (fst f) ?t1 made))" and
          m4: "\<forall>res. r = Inr res \<longrightarrow> made \<noteq> [] \<and> last (replay P (fst f) ?t1 made) = Inr (fst res)" and
          m5: "\<forall>e. r = Inl e \<longrightarrow> is_TypeError e \<longrightarrow>
                 made = callable_kwargs (snd f) vs \<and>
                 list_all raises_TypeError (replay P (fst f) ?t1 made)" and
          m6: "\<forall>e. r = Inl e \<longrightarrow> \<not> is_TypeError e \<longrightarrow>
                 made \<noteq> [] \<and> last (replay P (fst f) ?t1 made) = Inl e"
          by blast
        have mm: "raises_TypeError (P tr (fst f) ck)"
          using Inl True by (simp add: raises_TypeError_def)
        have c1: "ck # made = take (Suc n) (ck # callable_kwargs (snd f) vs)"
          using m1 by simp
        have c2: "tr' = tr @ map (Call (fst f)) (ck # made)"
          using m2 by simp
        have c3: "list_all raises_TypeError (butlast (replay P (fst f) tr (ck # made)))"
          using m3 mm by (simp add: replay_Nil_iff)
        have c4: "\<forall>res. r = Inr res \<longrightarrow> ck # made \<noteq> [] \<and>
              last (replay P (fst f) tr (ck # made)) = Inr (fst res)"
          using m4 by (simp add: replay_Nil_iff)
        have c5: "\<forall>e. r = Inl e \<longrightarrow> is_TypeError e \<longrightarrow>
                 ck # made = ck # callable_kwargs (snd f) vs \<and>
                 list_all raises_TypeError (replay P (fst f) tr (ck # made))"
          using m5 mm by auto
        have c6: "\<forall>e. r = Inl e \<longrightarrow> \<not> is_TypeError e \<longrightarrow>
                 ck # made \<noteq> [] \<and> last (replay P (fst f) tr (ck # made)) = Inl e"
          using m6 by (simp add: replay_Nil_iff)
        show ?thesis
          unfolding cs
          by (intro exI [of _ "ck # made"] exI [of _ "Suc n"] conjI c1 c2 c3 c4 c5 c6)
      qed
    qed
  qed
qed

lemma accepted_Nil_iff: "accepted sg kw = [] \<longleftrightarrow> accepts_no_key sg kw"
  by (auto simp: accepted_def accepts_no_key_def filter_empty_conv)

lemma filter_all_keys: "accepts_all_keys sg kw \<Longrightarrow> filter (\<lambda>kv. fst kv \<in> set (map fst sg)) kw = kw"
  by (auto simp: accepts_all_keys_def filter_id_conv)

lemma all_keys_not_no_key: "accepts_all_keys sg kw \<Longrightarrow> kw \<noteq> [] \<Longrightarrow> \<not> accepts_no_key sg kw"
  by (cases kw) (auto simp: accepts_all_keys_def accepts_no_key_def)

lemma call_with_signature_replay:
  assumes "call_with_signature P f vs tr = (r, tr')"
  shows "\<exists>made n. made = take n (callable_kwargs (snd f) vs) \<and>
       tr' = tr @ map (Call (fst f)) made \<and>
       list_all raises_TypeError (butlast (replay P (fst f) tr made)) \<and>
       (made = callable_kwargs (snd f) vs \<or>
        made \<noteq> [] \<and> \<not> raises_TypeError (last (replay P (fst f) tr made))) \<and>
       (\<forall>v tried. r = Inr (v, tried) \<longrightarrow> made \<noteq> [] \<and> last (replay P (fst f) tr made) = Inr v) \<and>
       (\<forall>e. \<not> is_TypeError e \<longrightarrow>
            (r = Inl e \<longleftrightarrow> made \<noteq> [] \<and> last (replay P (fst f) tr made) = Inl e))"
proof -
  have loop: "call_loop P f vs [] tr = (r, tr')"
    using assms by (simp add: call_with_signature_def)
  from call_loop_replay [OF loop] obtain made n where
    m1: "made = take n (callable_kwargs (snd f) vs)" and
    m2: "tr' = tr @ map (Call (fst f)) made" and
    m3: "list_all raises_TypeError (butlast (replay P (fst f) tr made))" and
    m4: "\<forall>res. r = Inr res \<longrightarrow> made \<noteq> [] \<and> last (replay P (fst f) tr made) = Inr (fst res)" and
    m5: "\<forall>e. r = Inl e \<longrightarrow> is_TypeError e \<longrightarrow>
           made = callable_kwargs (snd f) vs \<and>
           list_all raises_TypeError (replay P (fst f) tr made)" and
    m6: "\<forall>e. r = Inl e \<longrightarrow> \<not> is_TypeError e \<longrightarrow>
           made \<noteq> [] \<and> last (replay P (fst f) tr made) = Inl e"
    by blast
  have stop: "made = callable_kwargs (snd f) vs \<or>
        made \<noteq> [] \<and> \<not> raises_TypeError (last (replay P (fst f) tr made))"
  proof (cases r)
    case (Inr res)
    then show ?thesis using m4 by (simp add: raises_TypeError_def)
  next
    case (Inl e)
    then show ?thesis using m5 m6 by (cases "is_TypeError e") (auto simp: raises_TypeError_def)
  qed
  have last_gives: "r = Inl e" if ne: "\<not> is_TypeError e" and nonempty: "made \<noteq> []"
      and l: "last (replay P (fst f) tr made) = Inl e" for e
  proof (cases r)
    case (Inr res)
    then show ?thesis using m4 l by simp
  next
    case (Inl e')
    show ?thesis
    proof (cases "is_TypeError e'")
      case True
      then have "list_all raises_TypeError (replay P (fst f) tr made)"
        using m5 Inl by blast
      moreover have "replay P (fst f) tr made \<noteq> []"
        using nonempty by (simp add: replay_Nil_iff)
      ultimately have "raises_TypeError (last (replay P (fst f) tr made))"
        by (simp add: list_all_iff)
      then show ?thesis using l ne by (simp add: raises_TypeError_def)
    next
      case False
      then show ?thesis using m6 Inl l by simp
    qed
  qed
  have c5: "\<forall>v tried. r = Inr (v, tried) \<longrightarrow> made \<noteq> [] \<and> last (replay P (fst f) tr made) = Inr v"
    using m4 by auto
  have c6: "\<forall>e. \<not> is_TypeError e \<longrightarrow>
          (r = Inl e \<longleftrightarrow> made \<noteq> [] \<and> last (replay P (fst f) tr made) = Inl e)"
    using m6 last_gives by blast
  show ?thesis
    by (intro exI [of _ made] exI [of _ n] conjI m1 m2 m3 stop c5 c6)
qed

lemma call_kwargs_None_iff:
  "call_kwargs sig kw = None \<longleftrightarrow>
     (\<exists>sg. sig = Some sg \<and> accepts_no_key sg kw \<and> \<not> accepts_varkw sg)"
  by (cases sig) (auto simp: call_kwargs_def accepted_Nil_iff)

text \<open>
  Claim C4, as the code has it. \<open>_call_with_signature\<close> goes through the candidates in
  their order. A candidate is skipped, without a call, exactly when the signature can
  be read, none of the payload's keys is a declared parameter and the method takes no
  arbitrary keyword parameters. A candidate that is not skipped is called when its
  turn comes, that is when every call made before it raised a \<open>TypeError\<close>: the calls
  made are those of the candidates not skipped, in their order, up to and including
  the first one that does not raise a \<open>TypeError\<close>, and all of them when there is no
  such call. The call is made with the whole payload when the signature cannot be
  read, when the method takes arbitrary keyword parameters, or when all keys are
  declared; and with only the declared keys of the payload when some but not all keys
  are declared. In particular a single candidate is called exactly when it is not
  skipped.
\<close>

theorem call_with_signature_candidates:
  "(\<exists>made n. made = take n (callable_kwargs (snd f) vs) \<and>
        snd (call_with_signature P f vs tr) = tr @ map (Call (fst f)) made \<and>
        list_all raises_TypeError (butlast (replay P (fst f) tr made)) \<and>
        (made = callable_kwargs (snd f) vs \<or>
         made \<noteq> [] \<and> \<not> raises_TypeError (last (replay P (fst f) tr made)))) \<and>
   snd (call_with_signature P f [(name, kw)] tr) =
     (case call_kwargs (snd f) kw of None \<Rightarrow> tr | Some ck \<Rightarrow> tr @ [Call (fst f) ck]) \<and>
   (call_kwargs sig kw = None \<longleftrightarrow>
        (\<exists>sg. sig = Some sg \<and> accepts_no_key sg kw \<and> \<not> accepts_varkw sg)) \<and>
   (sig = None \<or> (\<exists>sg. sig = Some sg \<and> accepts_varkw sg) \<longrightarrow> call_kwargs sig kw = Some kw) \<and>
   (\<forall>sg. sig = Some sg \<and> accepts_all_keys sg kw \<and> kw \<noteq> [] \<longrightarrow> call_kwargs sig kw = Some kw) \<and>
   (\<forall>sg. sig = Some sg \<and> \<not> accepts_varkw sg \<and> \<not> accepts_no_key sg kw \<longrightarrow>
        call_kwargs sig kw = Some (filter (\<lambda>kv. fst kv \<in> set (map fst sg)) kw))"
proof -
  obtain r tr' where res: "call_with_signature P f vs tr = (r, tr')"
    by (cases "call_with_signature P f vs tr")
  from call_with_signature_replay [OF res]
  have a: "\<exists>made n. made = take n (callable_kwargs (snd f) vs) \<and>
        snd (call_with_signature P f vs tr) = tr @ map (Call (fst f)) made \<and>
        list_all raises_TypeError (butlast (replay P (fst f) tr made)) \<and>
        (made = callable_kwargs (snd f) vs \<or>
         made \<noteq> [] \<and> \<not> raises_TypeError (last (replay P (fst f) tr made)))"
    unfolding res by auto
  have s: "snd (call_with_signature P f [(name, kw)] tr) =
     (case call_kwargs (snd f) kw of None \<Rightarrow> tr | Some ck \<Rightarrow> tr @ [Call (fst f) ck])"
    by (simp add: call_with_signature_def Let_def split: option.splits sum.splits)
  have b: "call_kwargs sig kw = None \<longleftrightarrow>
        (\<exists>sg. sig = Some sg \<and> accepts_no_key sg kw \<and> \<not> accepts_varkw sg)"
    by (rule call_kwargs_None_iff)
  have c: "sig = None \<or> (\<exists>sg. sig = Some sg \<and> accepts_varkw sg) \<longrightarrow> call_kwargs sig kw = Some kw"
    by (cases sig) (auto simp: call_kwargs_def)
  have d: "\<forall>sg. sig = Some sg \<and> accepts_all_keys sg kw \<and> kw \<noteq> [] \<longrightarrow> call_kwargs sig kw = Some kw"
    using all_keys_not_no_key filter_all_keys
    by (cases sig) (auto simp: call_kwargs_def accepted_Nil_iff)
  have e: "\<forall>sg. sig = Some sg \<and> \<not> accepts_varkw sg \<and> \<not> accepts_no_key sg kw \<longrightarrow>
        call_kwargs sig kw = Some (filter (\<lambda>kv. fst kv \<in> set (map fst sg)) kw)"
    by (cases sig) (auto simp: call_kwargs_def accepted_Nil_iff)
  show ?thesis
    by (intro conjI a s b c d e)
qed

theorem call_with_signature_candidates_witness:
  "accepts_no_key [(''text'', POSITIONAL_OR_KEYWORD)] contents_payload \<and>
   \<not> accepts_varkw [(''text'', POSITIONAL_OR_KEYWORD)] \<and>
   call_kwargs (Some [(''text'', POSITIONAL_OR_KEYWORD)]) contents_payload = None \<and>
   snd (call_with_signature (always_returning text_response)
      (ModelsAttr ''generate_content'', Some [(''text'', POSITIONAL_OR_KEYWORD)])
      [(''contents'', contents_payload)] []) = [] \<and>
   accepts_varkw [(''kwargs'', VAR_KEYWORD)] \<and>
   call_kwargs (Some [(''kwargs'', VAR_KEYWORD)]) contents_payload = Some contents_payload \<and>
   call_kwargs None contents_payload = Some contents_payload \<and>
   snd (call_with_signature (always_returning text_response)
      (ModelsAttr ''generate_content'', None) [(''contents'', contents_payload)] []) =
     [Call (ModelsAttr ''generate_content'') contents_payload] \<and>
   accepts_all_keys [(''contents'', POSITIONAL_OR_KEYWORD), (''model'', KEYWORD_ONLY)] contents_payload \<and>
   contents_payload \<noteq> [] \<and>
   call_kwargs (Some [(''contents'', POSITIONAL_OR_KEYWORD), (''model'', KEYWORD_ONLY)]) contents_payload
     = Some contents_payload \<and>
   \<not> accepts_varkw model_only \<and> \<not> accepts_no_key model_only contents_payload \<and>
   call_kwargs (Some model_only) contents_payload = Some [(''model'', AStr ''m'')] \<and>
   snd (call_with_signature (always_returning text_response)
      (ModelsAttr ''generate_content'', Some model_only) [(''contents'', contents_payload)] []) =
     [Call (ModelsAttr ''generate_content'') [(''model'', AStr ''m'')]]"
proof -
  note t = call_with_signature_candidates
  have k1: "call_kwargs (Some [(''text'', POSITIONAL_OR_KEYWORD)]) contents_payload = None"
    using t [where sig = "Some [(''text'', POSITIONAL_OR_KEYWORD)]" and kw = contents_payload]
    by (simp add: contents_payload_def accepts_no_key_def accepts_varkw_def)
  have k2: "call_kwargs (Some [(''kwargs'', VAR_KEYWORD)]) contents_payload = Some contents_payload"
    using t [where sig = "Some [(''kwargs'', VAR_KEYWORD)]" and kw = contents_payload]
    by (simp add: accepts_varkw_def)
  have k3: "call_kwargs None contents_payload = Some contents_payload"
    using t [where sig = None and kw = contents_payload] by simp
  have k4: "call_kwargs (Some [(''contents'', POSITIONAL_OR_KEYWORD), (''model'', KEYWORD_ONLY)]) contents_payload
     = Some contents_payload"
    using t [where sig = "Some [(''contents'', POSITIONAL_OR_KEYWORD), (''model'', KEYWORD_ONLY)]"
               and kw = contents_payload]
    by (simp add: contents_payload_def accepts_all_keys_def)
  have k5: "call_kwargs (Some model_only) contents_payload = Some [(''model'', AStr ''m'')]"
    using t [where sig = "Some model_only" and kw = contents_payload]
    by (simp add: contents_payload_def model_only_def accepts_no_key_def accepts_varkw_def)
  have s1: "snd (call_with_signature (always_returning text_response)
      (ModelsAttr ''generate_content'', Some [(''text'', POSITIONAL_OR_KEYWORD)])
      [(''contents'', contents_payload)] []) = []"
    using t [where f = "(ModelsAttr ''generate_content'', Some [(''text'', POSITIONAL_OR_KEYWORD)])"
               and name = "''contents''" and kw = contents_payload and tr = "[]"
               and P = "always_returning text_response"] k1
    by simp
  have s3: "snd (call_with_signature (always_returning text_response)
      (ModelsAttr ''generate_content'', None) [(''contents'', contents_payload)] []) =
     [Call (ModelsAttr ''generate_content'') contents_payload]"
    using t [where f = "(ModelsAttr ''generate_content'', None)"
               and name = "''contents''" and kw = contents_payload and tr = "[]"
               and P = "always_returning text_response"] k3
    by simp
  have s5: "snd (call_with_signature (always_returning text_response)
      (ModelsAttr ''generate_content'', Some model_only) [(''contents'', contents_payload)] []) =
     [Call (ModelsAttr ''generate_content'') [(''model'', AStr ''m'')]]"
    using t [where f = "(ModelsAttr ''generate_content'', Some model_only)"
               and name = "''contents''" and kw = contents_payload and tr = "[]"
               and P = "always_returning text_response"] k5
    by simp
  show ?thesis
    using k1 k2 k3 k4 k5 s1 s3 s5
    by (simp add: contents_payload_def model_only_def accepts_no_key_def accepts_varkw_def
        accepts_all_keys_def)
qed

text \<open>
  Claim C4 as stated fails: a method that declares \<open>model\<close> only and takes no arbitrary
  keyword parameters does not accept all keys of the \<open>contents\<close> candidate, and it is
  called for that candidate all the same, with the key \<open>model\<close> alone.
\<close>

theorem call_with_partly_accepted_payload:
  "call_with_signature (always_raising (Exn TypeError ''bad''))
      (ModelsAttr ''generate_content'', Some model_only) [(''contents'', contents_payload)] [] =
     (Inl (AllVariantsFailed
        [(''contents'', Trying [''model'']),
         (''contents'', TypeErrorNote (Exn TypeError ''bad''))]),
      [Call (ModelsAttr ''generate_content'') [(''model'', AStr ''m'')]]) \<and>
   \<not> accepts_all_keys model_only contents_payload \<and> \<not> accepts_varkw model_only"
  by (simp add: call_with_signature_def call_kwargs_def accepted_def accepts_varkw_def
        accepts_all_keys_def model_only_def contents_payload_def always_raising_def)




section \<open>Properties of the augmented candidates\<close>

lemma augmented_variants_spec:
  "augmented_variants (payload_variants q model) mot temp =
     spec_augmented (payload_variants q model) mot temp"
  by (simp add: augmented_variants_def spec_augmented_def payload_variants_def
        token_param_names_def temp_param_names_def)

lemma replay_all_mismatch:
  "(\<forall>kw \<in> set kws. \<forall>t. raises_TypeError (P t f kw)) \<Longrightarrow>
     list_all raises_TypeError (replay P f tr kws)"
  by (induction kws arbitrary: tr) auto

lemma call_loop_append_mismatch:
  "list_all raises_TypeError (replay P (fst f) tr (callable_kwargs (snd f) vs1)) \<Longrightarrow>
   \<exists>tried'. call_loop P f (vs1 @ vs2) tried tr =
      call_loop P f vs2 tried' (tr @ map (Call (fst f)) (callable_kwargs (snd f) vs1))"
proof (induction vs1 arbitrary: tried tr)
  case Nil
  then show ?case by (auto simp: callable_kwargs_Nil)
next
  case (Cons v vs1)
  obtain name kw where v: "v = (name, kw)" by (cases v)
  show ?case
  proof (cases "call_kwargs (snd f) kw")
    case None
    then have same: "callable_kwargs (snd f) (v # vs1) = callable_kwargs (snd f) vs1"
      by (simp add: v callable_kwargs_Cons)
    obtain tried' where "call_loop P f (vs1 @ vs2) (tried @ [(name, Skipped)]) tr =
        call_loop P f vs2 tried' (tr @ map (Call (fst f)) (callable_kwargs (snd f) vs1))"
      using Cons.IH [of tr "tried @ [(name, Skipped)]"] Cons.prems unfolding same by blast
    then show ?thesis
      unfolding same using None by (auto simp: v)
  next
    case (Some ck)
    have cs: "callable_kwargs (snd f) (v # vs1) = ck # callable_kwargs (snd f) vs1"
      using Some by (simp add: v callable_kwargs_Cons)
    from Cons.prems have mm: "raises_TypeError (P tr (fst f) ck)"
      and rest: "list_all raises_TypeError
           (replay P (fst f) (tr @ [Call (fst f) ck]) (callable_kwargs (snd f) vs1))"
      unfolding cs by simp_all
    from mm obtain e where e: "P tr (fst f) ck = Inl e" "is_TypeError e"
      by (auto simp: raises_TypeError_def split: sum.splits)
    obtain tried' where "call_loop P f (vs1 @ vs2)
          (tried @ [(name, Trying (map fst ck)), (name, TypeErrorNote e)]) (tr @ [Call (fst f) ck]) =
        call_loop P f vs2 tried'
          ((tr @ [Call (fst f) ck]) @ map (Call (fst f)) (callable_kwargs (snd f) vs1))"
      using Cons.IH [OF rest] by blast
    then show ?thesis
      unfolding cs using Some e by (auto simp: v)
  qed
qed

lemma call_kwargs_keys:
  "call_kwargs sig kw = Some ck \<Longrightarrow> set (map fst ck) \<subseteq> set (map fst kw)"
  by (cases sig) (auto simp: call_kwargs_def split: if_splits)

lemma callable_kwargs_keys:
  "ck \<in> set (callable_kwargs sig vs) \<Longrightarrow> \<exists>v \<in> set vs. set (map fst ck) \<subseteq> set (map fst (snd v))"
proof (induction vs)
  case Nil
  then show ?case by (simp add: callable_kwargs_Nil)
next
  case (Cons v vs)
  obtain name kw where v: "v = (name, kw)" by (cases v)
  show ?case
  proof (cases "call_kwargs sig kw")
    case None
    then show ?thesis using Cons by (auto simp: v callable_kwargs_Cons)
  next
    case (Some ck')
    then show ?thesis
      using Cons call_kwargs_keys [OF Some] by (auto simp: v callable_kwargs_Cons)
  qed
qed

lemma call_loop_all_mismatch:
  assumes "list_all raises_TypeError (replay P (fst f) tr (callable_kwargs (snd f) vs))"
  shows "\<exists>tried'. call_loop P f vs tried tr =
      (Inl (AllVariantsFailed tried'), tr @ map (Call (fst f)) (callable_kwargs (snd f) vs))"
  using call_loop_append_mismatch [OF assms, of "[]" tried] by simp

lemma new_sdk_path_augmented:
  assumes "\<not> chat_completions_create c" and "models c = Some models_obj"
    and "find_func c models_obj = Some f"
    and "list_all raises_TypeError
           (replay P (fst f) tr (callable_kwargs (snd f) (payload_variants q model)))"
  shows "new_sdk_path P c q model mot temp tr =
      negotiate_and_extract P f (augmented_variants (payload_variants q model) mot temp)
        (tr @ map (Call (fst f)) (callable_kwargs (snd f) (payload_variants q model)))"
proof -
  obtain tried' where "call_with_signature P f (payload_variants q model) tr =
      (Inl (AllVariantsFailed tried'),
       tr @ map (Call (fst f)) (callable_kwargs (snd f) (payload_variants q model)))"
    using call_loop_all_mismatch [OF assms(4)] unfolding call_with_signature_def by blast
  then show ?thesis
    using assms(1-3) by (simp add: new_sdk_path_def negotiate_and_extract_def)
qed

lemma stub_call_kwargs:
  assumes "snd f = None \<or> (\<exists>sg. snd f = Some sg \<and>
      (accepts_varkw sg \<or> {''contents'', ''max_output_tokens''} \<subseteq> set (map fst sg)))"
  shows "\<exists>ck. call_kwargs (snd f) (contents_tokens_payload q model mot) = Some ck \<and>
      contents_with_tokens ck"
  using assms
  by (cases "snd f")
     (auto simp: call_kwargs_def accepted_def contents_tokens_payload_def contents_with_tokens_def)


lemma new_sdk_path_tokens_stub:
  assumes np: "\<not> chat_completions_create c" "models c = Some models_obj"
      "find_func c models_obj = Some f"
    and H1: "\<forall>t kw. contents_with_tokens kw \<longrightarrow> P t (fst f) kw = Inr resp"
    and H2: "\<forall>t kw. \<not> contents_with_tokens kw \<longrightarrow> raises_TypeError (P t (fst f) kw)"
    and H3: "snd f = None \<or> (\<exists>sg. snd f = Some sg \<and>
      (accepts_varkw sg \<or> {''contents'', ''max_output_tokens''} \<subseteq> set (map fst sg)))"
  shows "\<exists>ck. call_kwargs (snd f) (contents_tokens_payload q model mot) = Some ck \<and>
      contents_with_tokens ck \<and>
      new_sdk_path P c q model mot temp tr =
        (extract_text resp,
         tr @ map (Call (fst f))
           (callable_kwargs (snd f) (payload_variants q model) @
            callable_kwargs (snd f) (take 5 (augmented_variants (payload_variants q model) mot temp)) @
            [ck]))"
proof -
  let ?base = "payload_variants q model"
  let ?aug = "augmented_variants ?base mot temp"
  let ?tr1 = "tr @ map (Call (fst f)) (callable_kwargs (snd f) ?base)"
  let ?tr2 = "?tr1 @ map (Call (fst f)) (callable_kwargs (snd f) (take 5 ?aug))"
  obtain ck where ck: "call_kwargs (snd f) (contents_tokens_payload q model mot) = Some ck"
      "contents_with_tokens ck"
    using stub_call_kwargs [OF H3] by blast
  have base_keys: "\<forall>v \<in> set ?base. ''max_output_tokens'' \<notin> set (map fst (snd v))"
    by (simp add: payload_variants_def)
  have "\<not> contents_with_tokens kw" if mem: "kw \<in> set (callable_kwargs (snd f) ?base)" for kw
  proof -
    obtain v where "v \<in> set ?base" "set (map fst kw) \<subseteq> set (map fst (snd v))"
      using callable_kwargs_keys [OF mem] by blast
    then have "''max_output_tokens'' \<notin> set (map fst kw)"
      using base_keys by blast
    then show ?thesis by (simp add: contents_with_tokens_def)
  qed
  then have "list_all raises_TypeError (replay P (fst f) tr (callable_kwargs (snd f) ?base))"
    using H2 by (intro replay_all_mismatch) blast
  then have step1: "new_sdk_path P c q model mot temp tr = negotiate_and_extract P f ?aug ?tr1"
    using np by (rule new_sdk_path_augmented [rotated 3])
  have split: "?aug = take 5 ?aug @
      (''contents+max_output_tokens'', contents_tokens_payload q model mot) # drop 6 ?aug"
    unfolding augmented_variants_spec
    by (simp add: spec_augmented_def payload_variants_def
          token_param_names_def temp_param_names_def contents_tokens_payload_def)
  have first_keys: "\<forall>v \<in> set (take 5 ?aug). ''contents'' \<notin> set (map fst (snd v))"
    unfolding augmented_variants_spec
    by (simp add: spec_augmented_def payload_variants_def
          token_param_names_def temp_param_names_def)
  have "\<not> contents_with_tokens kw" if mem: "kw \<in> set (callable_kwargs (snd f) (take 5 ?aug))" for kw
  proof -
    obtain v where "v \<in> set (take 5 ?aug)" "set (map fst kw) \<subseteq> set (map fst (snd v))"
      using callable_kwargs_keys [OF mem] by blast
    then have "''contents'' \<notin> set (map fst kw)"
      using first_keys by blast
    then show ?thesis by (simp add: contents_with_tokens_def)
  qed
  then have "list_all raises_TypeError
      (replay P (fst f) ?tr1 (callable_kwargs (snd f) (take 5 ?aug)))"
    using H2 by (intro replay_all_mismatch) blast
  from call_loop_append_mismatch [OF this] obtain tried' where
    "call_loop P f (take 5 ?aug @
        (''contents+max_output_tokens'', contents_tokens_payload q model mot) # drop 6 ?aug) [] ?tr1 =
     call_loop P f
        ((''contents+max_output_tokens'', contents_tokens_payload q model mot) # drop 6 ?aug) tried' ?tr2"
    by blast
  then have "call_loop P f ?aug [] ?tr1 =
     call_loop P f
        ((''contents+max_output_tokens'', contents_tokens_payload q model mot) # drop 6 ?aug) tried' ?tr2"
    using split by simp
  also have "\<dots> = (Inr (resp, tried' @ [(''contents+max_output_tokens'', Trying (map fst ck))]),
       ?tr2 @ [Call (fst f) ck])"
    using ck H1 by simp
  finally have "negotiate_and_extract P f ?aug ?tr1 = (extract_text resp, ?tr2 @ [Call (fst f) ck])"
    by (simp add: negotiate_and_extract_def call_with_signature_def)
  with step1 ck show ?thesis by auto
qed

text \<open>
  Claim C5, as the code has it. The augmented set holds, for each base candidate in
  order, one candidate per alias in the order \<open>max_output_tokens\<close>, \<open>max_tokens\<close>,
  \<open>max_tokens_to_sample\<close>, \<open>temperature\<close>, \<open>temp\<close>, which adds that one key to the base
  payload (the token limit under a token alias, the temperature under a temperature
  alias): five augmented candidates per base candidate. When every call made for the
  base candidates fails with a \<open>TypeError\<close> (which is what the code takes for a signature
  mismatch), the attempt goes on to negotiate over the augmented candidates before it
  gives up. Against a provider that fails
  signature matching unless \<open>contents\<close> comes with \<open>max_output_tokens\<close>, and a method
  that takes both keywords, the attempt ends with the call of the candidate
  \<open>contents+max_output_tokens\<close> and returns the text of its response.
\<close>

theorem augmented_candidates_after_mismatch:
  "augmented_variants (payload_variants q model) mot temp =
     spec_augmented (payload_variants q model) mot temp \<and>
   length (augmented_variants (payload_variants q model) mot temp) =
     5 * length (payload_variants q model) \<and>
   (\<not> chat_completions_create c \<and> models c = Some models_obj \<and>
    find_func c models_obj = Some f \<and>
    list_all raises_TypeError
      (replay P (fst f) tr (callable_kwargs (snd f) (payload_variants q model))) \<longrightarrow>
      new_sdk_path P c q model mot temp tr =
        negotiate_and_extract P f (augmented_variants (payload_variants q model) mot temp)
          (tr @ map (Call (fst f)) (callable_kwargs (snd f) (payload_variants q model)))) \<and>
   (\<not> chat_completions_create c \<and> models c = Some models_obj \<and>
    find_func c models_obj = Some f \<and>
    (\<forall>t kw. contents_with_tokens kw \<longrightarrow> P t (fst f) kw = Inr resp) \<and>
    (\<forall>t kw. \<not> contents_with_tokens kw \<longrightarrow> raises_TypeError (P t (fst f) kw)) \<and>
    (snd f = None \<or> (\<exists>sg. snd f = Some sg \<and>
       (accepts_varkw sg \<or> {''contents'', ''max_output_tokens''} \<subseteq> set (map fst sg)))) \<longrightarrow>
      (\<exists>ck. call_kwargs (snd f) (contents_tokens_payload q model mot) = Some ck \<and>
         contents_with_tokens ck \<and>
         new_sdk_path P c q model mot temp tr =
           (extract_text resp,
            tr @ map (Call (fst f))
              (callable_kwargs (snd f) (payload_variants q model) @
               callable_kwargs (snd f)
                 (take 5 (augmented_variants (payload_variants q model) mot temp)) @
               [ck]))))"
proof (intro conjI impI)
  show "augmented_variants (payload_variants q model) mot temp =
     spec_augmented (payload_variants q model) mot temp"
    by (rule augmented_variants_spec)
  show "length (augmented_variants (payload_variants q model) mot temp) =
     5 * length (payload_variants q model)"
    unfolding augmented_variants_spec
    by (simp add: spec_augmented_def payload_variants_def token_param_names_def
          temp_param_names_def)
next
  assume h: "\<not> chat_completions_create c \<and> models c = Some models_obj \<and>
    find_func c models_obj = Some f \<and>
    list_all raises_TypeError
      (replay P (fst f) tr (callable_kwargs (snd f) (payload_variants q model)))"
  show "new_sdk_path P c q model mot temp tr =
        negotiate_and_extract P f (augmented_variants (payload_variants q model) mot temp)
          (tr @ map (Call (fst f)) (callable_kwargs (snd f) (payload_variants q model)))"
    using h by (intro new_sdk_path_augmented [where models_obj = models_obj]) simp_all
next
  assume h: "\<not> chat_completions_create c \<and> models c = Some models_obj \<and>
    find_func c models_obj = Some f \<and>
    (\<forall>t kw. contents_with_tokens kw \<longrightarrow> P t (fst f) kw = Inr resp) \<and>
    (\<forall>t kw. \<not> contents_with_tokens kw \<longrightarrow> raises_TypeError (P t (fst f) kw)) \<and>
    (snd f = None \<or> (\<exists>sg. snd f = Some sg \<and>
       (accepts_varkw sg \<or> {''contents'', ''max_output_tokens''} \<subseteq> set (map fst sg))))"
  show "\<exists>ck. call_kwargs (snd f) (contents_tokens_payload q model mot) = Some ck \<and>
         contents_with_tokens ck \<and>
         new_sdk_path P c q model mot temp tr =
           (extract_text resp,
            tr @ map (Call (fst f))
              (callable_kwargs (snd f) (payload_variants q model) @
               callable_kwargs (snd f)
                 (take 5 (augmented_variants (payload_variants q model) mot temp)) @
               [ck]))"
    using h by (intro new_sdk_path_tokens_stub [where models_obj = models_obj]) simp_all
qed

theorem augmented_candidates_after_mismatch_witness:
  "\<not> chat_completions_create (models_client (Some contents_model_tokens)) \<and>
   models (models_client (Some contents_model_tokens)) =
     Some [''generate_content'' \<mapsto> Callable (Some contents_model_tokens)] \<and>
   find_func (models_client (Some contents_model_tokens))
       [''generate_content'' \<mapsto> Callable (Some contents_model_tokens)] =
     Some (ModelsAttr ''generate_content'', Some contents_model_tokens) \<and>
   {''contents'', ''max_output_tokens''} \<subseteq> set (map fst contents_model_tokens) \<and>
   list_all raises_TypeError
     (replay (tokens_stub text_response) (ModelsAttr ''generate_content'') []
        (callable_kwargs (Some contents_model_tokens) (payload_variants ''hi'' ''m''))) \<and>
   fst (new_sdk_path (tokens_stub text_response) (models_client (Some contents_model_tokens))
          ''hi'' ''m'' 512 (1 / 5) []) = Inr (PStr ''y'') \<and>
   last (snd (new_sdk_path (tokens_stub text_response) (models_client (Some contents_model_tokens))
          ''hi'' ''m'' 512 (1 / 5) [])) =
     Call (ModelsAttr ''generate_content'') (contents_tokens_payload ''hi'' ''m'' 512)"
proof -
  let ?f = "(ModelsAttr ''generate_content'', Some contents_model_tokens)"
  have ff: "find_func (models_client (Some contents_model_tokens))
       [''generate_content'' \<mapsto> Callable (Some contents_model_tokens)] = Some ?f"
    by (simp add: find_func_def candidate_names_def)
  have H1: "\<forall>t kw. contents_with_tokens kw \<longrightarrow>
      tokens_stub text_response t (fst ?f) kw = Inr text_response"
    by (simp add: tokens_stub_def)
  have H2: "\<forall>t kw. \<not> contents_with_tokens kw \<longrightarrow>
      raises_TypeError (tokens_stub text_response t (fst ?f) kw)"
    by (simp add: tokens_stub_def raises_TypeError_def)
  have H3: "{''contents'', ''max_output_tokens''} \<subseteq> set (map fst contents_model_tokens)"
    by (simp add: contents_model_tokens_def)
  have mm: "list_all raises_TypeError
     (replay (tokens_stub text_response) (ModelsAttr ''generate_content'') []
        (callable_kwargs (Some contents_model_tokens) (payload_variants ''hi'' ''m'')))"
    by (simp add: callable_kwargs_def List.map_filter_simps payload_variants_def call_kwargs_def
          accepted_def accepts_varkw_def contents_model_tokens_def tokens_stub_def
          contents_with_tokens_def raises_TypeError_def)
  have ck: "call_kwargs (Some contents_model_tokens) (contents_tokens_payload ''hi'' ''m'' 512) =
      Some (contents_tokens_payload ''hi'' ''m'' 512)"
    by (simp add: call_kwargs_def accepted_def accepts_varkw_def contents_model_tokens_def
          contents_tokens_payload_def)
  have ex: "extract_text text_response = Inr (PStr ''y'')"
    by code_simp
  let ?c = "models_client (Some contents_model_tokens)"
  have np: "\<not> chat_completions_create ?c"
      "models ?c = Some [''generate_content'' \<mapsto> Callable (Some contents_model_tokens)]"
    by (simp_all add: models_client_def)
  have hyp: "\<not> chat_completions_create ?c \<and>
      models ?c = Some [''generate_content'' \<mapsto> Callable (Some contents_model_tokens)] \<and>
      find_func ?c [''generate_content'' \<mapsto> Callable (Some contents_model_tokens)] = Some ?f \<and>
      (\<forall>t kw. contents_with_tokens kw \<longrightarrow>
          tokens_stub text_response t (fst ?f) kw = Inr text_response) \<and>
      (\<forall>t kw. \<not> contents_with_tokens kw \<longrightarrow>
          raises_TypeError (tokens_stub text_response t (fst ?f) kw)) \<and>
      (snd ?f = None \<or> (\<exists>sg. snd ?f = Some sg \<and>
         (accepts_varkw sg \<or> {''contents'', ''max_output_tokens''} \<subseteq> set (map fst sg))))"
    using np ff H1 H2 H3 by simp
  obtain ck' where
    ck': "call_kwargs (snd ?f) (contents_tokens_payload ''hi'' ''m'' 512) = Some ck'" and
    res: "new_sdk_path (tokens_stub text_response) ?c ''hi'' ''m'' 512 (1 / 5) [] =
           (extract_text text_response,
            [] @ map (Call (fst ?f))
              (callable_kwargs (snd ?f) (payload_variants ''hi'' ''m'') @
               callable_kwargs (snd ?f)
                 (take 5 (augmented_variants (payload_variants ''hi'' ''m'') 512 (1 / 5))) @
               [ck']))"
    using augmented_candidates_after_mismatch
      [where c = ?c
         and models_obj = "[''generate_content'' \<mapsto> Callable (Some contents_model_tokens)]"
         and f = ?f and P = "tokens_stub text_response" and resp = text_response
         and q = "''hi''" and model = "''m''" and mot = 512 and temp = "1 / 5" and tr = "[]",
       THEN conjunct2, THEN conjunct2, THEN conjunct2, THEN mp, OF hyp]
    by blast
  have "ck' = contents_tokens_payload ''hi'' ''m'' 512"
    using ck ck' by simp
  then have "new_sdk_path (tokens_stub text_response) ?c ''hi'' ''m'' 512 (1 / 5) [] =
           (Inr (PStr ''y''),
            map (Call (ModelsAttr ''generate_content''))
              (callable_kwargs (Some contents_model_tokens) (payload_variants ''hi'' ''m'') @
               callable_kwargs (Some contents_model_tokens)
                 (take 5 (augmented_variants (payload_variants ''hi'' ''m'') 512 (1 / 5))) @
               [contents_tokens_payload ''hi'' ''m'' 512]))"
    using res ex by simp
  then show ?thesis
    using np ff H3 mm by simp
qed

text \<open>
  Claim C5 as stated fails: the four base candidates get twenty augmented candidates,
  not as many again, and none of them carries a token-limit key together with a
  temperature key.
\<close>

theorem augmented_variants_one_key_each:
  "length (payload_variants ''hi'' ''m'') = 4 \<and>
   length (augmented_variants (payload_variants ''hi'' ''m'') 512 (1 / 5)) = 20 \<and>
   \<not> list_ex has_token_and_temperature
        (augmented_variants (payload_variants ''hi'' ''m'') 512 (1 / 5))"
  unfolding augmented_variants_spec
  by (simp add: spec_augmented_def payload_variants_def token_param_names_def
        temp_param_names_def has_token_and_temperature_def)

section \<open>Properties of the HTTP layer and of module initialisation\<close>

lemma replay_from_provider:
  "x \<in> set (replay P f tr made) \<Longrightarrow> \<exists>t kw. x = P t f kw"
  by (induction made arbitrary: tr) auto

lemma call_with_signature_response:
  assumes "call_with_signature P f vs tr = (Inr (resp, tried), tr')"
  shows "\<exists>t kw. P t (fst f) kw = Inr resp"
proof -
  from call_with_signature_replay [OF assms] obtain made where
    m: "made \<noteq> []" "last (replay P (fst f) tr made) = Inr resp"
    by blast
  then have "replay P (fst f) tr made \<noteq> []"
    by (simp add: replay_Nil_iff)
  then have "Inr resp \<in> set (replay P (fst f) tr made)"
    using m(2) last_in_set by metis
  then show ?thesis
    using replay_from_provider by metis
qed

lemma call_and_extract_str:
  assumes "\<forall>t f kw resp. P t f kw = Inr resp \<longrightarrow> spec_texts_are_str resp"
    and "fst (call_and_extract P f kw tr) = Inr v"
  shows "\<exists>s. v = PStr s"
proof (cases "P tr f kw")
  case (Inl e)
  then show ?thesis using assms(2) by (simp add: call_and_extract_def)
next
  case (Inr resp)
  then have "spec_texts_are_str resp \<and> extract_text resp = Inr v"
    using assms by (simp add: call_and_extract_def)
  then show ?thesis by (rule extract_text_str)
qed

lemma negotiate_and_extract_str:
  assumes "\<forall>t f kw resp. P t f kw = Inr resp \<longrightarrow> spec_texts_are_str resp"
    and "fst (negotiate_and_extract P f vs tr) = Inr v"
  shows "\<exists>s. v = PStr s"
proof -
  obtain r tr' where c: "call_with_signature P f vs tr = (r, tr')"
    by (cases "call_with_signature P f vs tr")
  show ?thesis
  proof (cases r)
    case (Inl e)
    then show ?thesis using assms(2) c by (simp add: negotiate_and_extract_def)
  next
    case (Inr res)
    obtain resp tried where res: "res = (resp, tried)" by (cases res)
    have "\<exists>t kw. P t (fst f) kw = Inr resp"
      using call_with_signature_response c Inr res by metis
    then have "spec_texts_are_str resp" using assms(1) by blast
    moreover have "extract_text resp = Inr v"
      using assms(2) c Inr res by (simp add: negotiate_and_extract_def)
    ultimately show ?thesis using extract_text_str by blast
  qed
qed

lemma new_sdk_path_str:
  assumes ok: "\<forall>t f kw resp. P t f kw = Inr resp \<longrightarrow> spec_texts_are_str resp"
    and r: "fst (new_sdk_path P c q model mot temp tr) = Inr v"
  shows "\<exists>s. v = PStr s"
proof (cases "chat_completions_create c")
  case True
  then show ?thesis
    using r call_and_extract_str [OF ok] by (simp add: new_sdk_path_def)
next
  case False
  show ?thesis
  proof (cases "models c")
    case None
    then show ?thesis using False r by (simp add: new_sdk_path_def)
  next
    case (Some models_obj)
    show ?thesis
    proof (cases "find_func c models_obj")
      case None
      then show ?thesis using False Some r by (simp add: new_sdk_path_def)
    next
      case (Some f)
      obtain r1 tr' where base: "negotiate_and_extract P f (payload_variants q model) tr = (r1, tr')"
        by (cases "negotiate_and_extract P f (payload_variants q model) tr")
      show ?thesis
      proof (cases r1)
        case (Inr v')
        then have "v' = v"
          using False \<open>models c = Some models_obj\<close> Some base r by (simp add: new_sdk_path_def)
        then show ?thesis
          using negotiate_and_extract_str [OF ok, of f "payload_variants q model" tr v] base Inr
          by simp
      next
        case (Inl te)
        show ?thesis
        proof (cases "is_TypeError te")
          case True
          then have "fst (negotiate_and_extract P f
              (augmented_variants (payload_variants q model) mot temp) tr') = Inr v"
            using False \<open>models c = Some models_obj\<close> Some base r Inl
            by (simp add: new_sdk_path_def)
          then show ?thesis by (rule negotiate_and_extract_str [OF ok])
        next
          case nt: False
          then show ?thesis
            using False \<open>models c = Some models_obj\<close> Some base r Inl
            by (simp add: new_sdk_path_def)
        qed
      qed
    qed
  qed
qed

lemma old_sdk_path_str:
  assumes ok: "\<forall>t f kw resp. P t f kw = Inr resp \<longrightarrow> spec_texts_are_str resp"
    and r: "fst (old_sdk_path P sdk q model mot temp tr) = Inr v"
  shows "\<exists>s. v = PStr s"
  using r call_and_extract_str [OF ok]
  by (auto simp: old_sdk_path_def split: if_splits)

lemma attempt_body_str:
  assumes ok: "\<forall>t f kw resp. P t f kw = Inr resp \<longrightarrow> spec_texts_are_str resp"
    and r: "fst (attempt_body P g q model mot temp tr) = Inr v"
  shows "\<exists>s. v = PStr s"
  using r new_sdk_path_str [OF ok] old_sdk_path_str [OF ok]
  by (auto simp: attempt_body_def split: bool.splits option.splits)

lemma retry_loop_str:
  assumes "\<And>t v. fst (body t) = Inr v \<Longrightarrow> \<exists>s. v = PStr s"
  shows "fst (retry_loop body sleep_fn retries backoff idxs tr) = Inr v \<Longrightarrow> \<exists>s. v = PStr s"
proof (induction idxs arbitrary: tr)
  case Nil
  then show ?case by simp
next
  case (Cons i idxs)
  obtain r tr' where b: "body tr = (r, tr')" by (cases "body tr")
  show ?case
  proof (cases r)
    case (Inr v')
    then show ?thesis using Cons.prems b assms [of tr v'] by simp
  next
    case (Inl e)
    then show ?thesis
      using Cons.prems b Cons.IH by (simp split: if_splits sum.splits)
  qed
qed

lemma ask_gemini_sync_str:
  assumes ok: "\<forall>t f kw resp. P t f kw = Inr resp \<longrightarrow> spec_texts_are_str resp"
    and r: "fst (ask_gemini_sync P g q model mot temp retries backoff tr) = Inr v"
  shows "\<exists>s. v = PStr s"
  using r retry_loop_str [of "attempt_body P g q model mot temp", OF attempt_body_str [OF ok]]
  by (auto simp: ask_gemini_sync_def split: if_splits)

text \<open>
  Claim C7, as the code has it. \<open>POST /ask\<close>: a question that is blank after trimming
  fails with status 400 and leaves the world as it was (the provider is not invoked);
  when the invoker, called with the trimmed question and its defaults, raises, the
  request fails with status 502; when it returns a string, the response is that
  string as \<open>answer\<close> with the source \<open>gemini\<close>. The invoker's result is a string
  whenever every text of the provider's responses is one. A result that is not a
  string goes through the validation of the response model: the response carries
  what the model converts it to, and the request fails with a validation error when
  the model refuses it.
\<close>

theorem ask_status:
  "(strip (question request) = [] \<longrightarrow>
      ask P g a request tr = (Inl (HTTPException 400 ''Question is required''), tr)) \<and>
   (\<forall>e tr1. strip (question request) \<noteq> [] \<and>
      ask_gemini_sync P g (strip (question request)) (DEFAULT_MODEL g) 512 (1 / 5) 2 1 tr =
        (Inl e, tr1) \<longrightarrow>
      ask P g a request tr = (Inl (HTTPException 502 ''AI service error''), tr1 @ [LogException e])) \<and>
   (\<forall>s tr1. strip (question request) \<noteq> [] \<and>
      ask_gemini_sync P g (strip (question request)) (DEFAULT_MODEL g) 512 (1 / 5) 2 1 tr =
        (Inr (PStr s), tr1) \<longrightarrow>
      fst (ask P g a request tr) = Inr \<lparr>answer = s, source = Some ''gemini''\<rparr>) \<and>
   (\<forall>v tr1. strip (question request) \<noteq> [] \<and>
      ask_gemini_sync P g (strip (question request)) (DEFAULT_MODEL g) 512 (1 / 5) 2 1 tr =
        (Inr v, tr1) \<and>
      (\<forall>t f kw resp. P t f kw = Inr resp \<longrightarrow> spec_texts_are_str resp) \<longrightarrow>
      (\<exists>s. v = PStr s \<and>
         fst (ask P g a request tr) = Inr \<lparr>answer = s, source = Some ''gemini''\<rparr>)) \<and>
   (\<forall>v tr1. strip (question request) \<noteq> [] \<and>
      ask_gemini_sync P g (strip (question request)) (DEFAULT_MODEL g) 512 (1 / 5) 2 1 tr =
        (Inr v, tr1) \<and> (\<forall>s. v \<noteq> PStr s) \<longrightarrow>
      fst (ask P g a request tr) =
        (case coerce_answer a v of
           Some s \<Rightarrow> Inr \<lparr>answer = s, source = Some ''gemini''\<rparr>
         | None \<Rightarrow> Inl ResponseValidationError))"
proof (intro conjI allI impI)
  assume "strip (question request) = []"
  then show "ask P g a request tr = (Inl (HTTPException 400 ''Question is required''), tr)"
    by (simp add: ask_def)
next
  fix e tr1
  assume "strip (question request) \<noteq> [] \<and>
      ask_gemini_sync P g (strip (question request)) (DEFAULT_MODEL g) 512 (1 / 5) 2 1 tr =
        (Inl e, tr1)"
  then show "ask P g a request tr =
      (Inl (HTTPException 502 ''AI service error''), tr1 @ [LogException e])"
    by (simp add: ask_def)
next
  fix s tr1
  assume "strip (question request) \<noteq> [] \<and>
      ask_gemini_sync P g (strip (question request)) (DEFAULT_MODEL g) 512 (1 / 5) 2 1 tr =
        (Inr (PStr s), tr1)"
  then show "fst (ask P g a request tr) = Inr \<lparr>answer = s, source = Some ''gemini''\<rparr>"
    by (simp add: ask_def Let_def)
next
  fix v tr1
  assume h: "strip (question request) \<noteq> [] \<and>
      ask_gemini_sync P g (strip (question request)) (DEFAULT_MODEL g) 512 (1 / 5) 2 1 tr =
        (Inr v, tr1) \<and>
      (\<forall>t f kw resp. P t f kw = Inr resp \<longrightarrow> spec_texts_are_str resp)"
  then have ok: "\<forall>t f kw resp. P t f kw = Inr resp \<longrightarrow> spec_texts_are_str resp"
    by simp
  obtain s where "v = PStr s"
    using ask_gemini_sync_str
      [OF ok, of g "strip (question request)" "DEFAULT_MODEL g" 512 "1 / 5" 2 1 tr v] h
    by auto
  then show "\<exists>s. v = PStr s \<and>
      fst (ask P g a request tr) = Inr \<lparr>answer = s, source = Some ''gemini''\<rparr>"
    using h by (simp add: ask_def Let_def)
next
  fix v tr1
  assume h: "strip (question request) \<noteq> [] \<and>
      ask_gemini_sync P g (strip (question request)) (DEFAULT_MODEL g) 512 (1 / 5) 2 1 tr =
        (Inr v, tr1) \<and> (\<forall>s. v \<noteq> PStr s)"
  then show "fst (ask P g a request tr) =
        (case coerce_answer a v of
           Some s \<Rightarrow> Inr \<lparr>answer = s, source = Some ''gemini''\<rparr>
         | None \<Rightarrow> Inl ResponseValidationError)"
    by (cases v) (simp_all add: ask_def Let_def split: option.splits)
qed

theorem ask_status_witness:
  "strip (question \<lparr>question = ''  ''\<rparr>) = [] \<and>
   ask (always_returning text_response) (new_sdk_globals None) app_with_failing_database
       \<lparr>question = ''  ''\<rparr> [] =
     (Inl (HTTPException 400 ''Question is required''), []) \<and>
   strip (question \<lparr>question = '' hi ''\<rparr>) \<noteq> [] \<and>
   fst (ask_gemini_sync (always_raising (Exn OtherException ''boom'')) (new_sdk_globals None)
          (strip (question \<lparr>question = '' hi ''\<rparr>)) (DEFAULT_MODEL (new_sdk_globals None))
          512 (1 / 5) 2 1 []) =
     Inl (RequestFailed 3 (Exn OtherException ''boom'')) \<and>
   fst (ask (always_raising (Exn OtherException ''boom'')) (new_sdk_globals None)
          app_with_failing_database \<lparr>question = '' hi ''\<rparr> []) =
     Inl (HTTPException 502 ''AI service error'') \<and>
   spec_texts_are_str text_response \<and>
   fst (ask_gemini_sync (always_returning text_response) (new_sdk_globals None)
          (strip (question \<lparr>question = '' hi ''\<rparr>)) (DEFAULT_MODEL (new_sdk_globals None))
          512 (1 / 5) 2 1 []) = Inr (PStr ''y'') \<and>
   fst (ask (always_returning text_response) (new_sdk_globals None) app_with_failing_database
          \<lparr>question = '' hi ''\<rparr> []) =
     Inr \<lparr>answer = ''y'', source = Some ''gemini''\<rparr> \<and>
   fst (ask_gemini_sync (always_returning bytes_text_response) (new_sdk_globals None)
          (strip (question \<lparr>question = '' hi ''\<rparr>)) (DEFAULT_MODEL (new_sdk_globals None))
          512 (1 / 5) 2 1 []) = Inr (PBytes ''hi'') \<and>
   coerce_answer app_without_database (PBytes ''hi'') = Some ''hi'' \<and>
   fst (ask (always_returning bytes_text_response) (new_sdk_globals None) app_without_database
          \<lparr>question = '' hi ''\<rparr> []) =
     Inr \<lparr>answer = ''hi'', source = Some ''gemini''\<rparr>"
proof -
  let ?c = "Call (ModelsAttr ''generate_content'') (snd (hd (payload_variants ''hi'' ''gemini-2.5-flash'')))"
  have s1: "strip ''  '' = []" and s2: "strip '' hi '' = ''hi''"
    by (simp_all add: strip_def is_space_def)
  have nb: "\<not> blank ''hi''"
    by (simp add: blank_def strip_def is_space_def)
  have dm: "DEFAULT_MODEL (new_sdk_globals None) = ''gemini-2.5-flash''"
    by (simp add: new_sdk_globals_def)
  have ts: "time_sleep (new_sdk_globals None) = cpython_sleep"
    by (simp add: new_sdk_globals_def)
  have body: "attempt_body (always_raising (Exn OtherException ''boom'')) (new_sdk_globals None)
        ''hi'' ''gemini-2.5-flash'' 512 (1 / 5) t = (Inl (Exn OtherException ''boom''), t @ [?c])" for t
    by (simp add: attempt_body_def new_sdk_globals_def models_client_def new_sdk_path_def
        find_func_def candidate_names_def negotiate_and_extract_def call_with_signature_def
        payload_variants_def call_kwargs_def always_raising_def)
  have fail: "ask_gemini_sync (always_raising (Exn OtherException ''boom'')) (new_sdk_globals None)
          ''hi'' ''gemini-2.5-flash'' 512 (1 / 5) 2 1 [] =
     (Inl (RequestFailed 3 (Exn OtherException ''boom'')), [?c, Sleep 1, ?c, Sleep 2, ?c])"
    using nb
    by (simp add: ask_gemini_sync_def py_range_def upt_rec body ts backoff_sleep_def
          sleep_seconds_def cpython_sleep_def)
  have ex: "extract_text text_response = Inr (PStr ''y'')"
    by code_simp
  have exb: "extract_text bytes_text_response = Inr (PBytes ''hi'')"
    by code_simp
  have ok: "ask_gemini_sync (always_returning resp) (new_sdk_globals None)
          ''hi'' ''gemini-2.5-flash'' 512 (1 / 5) 2 1 [] = (Inr v, [?c])"
    if "extract_text resp = Inr v" for resp v
    using nb that
    by (simp add: ask_gemini_sync_def py_range_def attempt_body_def new_sdk_globals_def
          models_client_def new_sdk_path_def find_func_def candidate_names_def
          negotiate_and_extract_def call_with_signature_def payload_variants_def call_kwargs_def
          always_returning_def upt_rec)
  have st: "spec_texts_are_str text_response"
    by code_simp
  then have str: "\<forall>t f kw resp. always_returning text_response t f kw = Inr resp \<longrightarrow>
      spec_texts_are_str resp"
    by (simp add: always_returning_def)
  have co: "coerce_answer app_without_database (PBytes ''hi'') = Some ''hi''"
    by (simp add: app_without_database_def str_field_def)
  have w1: "ask (always_returning text_response) (new_sdk_globals None) app_with_failing_database
       \<lparr>question = ''  ''\<rparr> [] = (Inl (HTTPException 400 ''Question is required''), [])"
    using ask_status [of "\<lparr>question = ''  ''\<rparr>" "always_returning text_response"
         "new_sdk_globals None" app_with_failing_database "[]", THEN conjunct1] s1
    by simp
  have w2: "fst (ask (always_raising (Exn OtherException ''boom'')) (new_sdk_globals None)
          app_with_failing_database \<lparr>question = '' hi ''\<rparr> []) =
     Inl (HTTPException 502 ''AI service error'')"
    using ask_status [of "\<lparr>question = '' hi ''\<rparr>" "always_raising (Exn OtherException ''boom'')"
         "new_sdk_globals None" app_with_failing_database "[]", THEN conjunct2, THEN conjunct1]
      s2 fail dm
    by simp
  have w3: "fst (ask (always_returning text_response) (new_sdk_globals None) app_with_failing_database
          \<lparr>question = '' hi ''\<rparr> []) = Inr \<lparr>answer = ''y'', source = Some ''gemini''\<rparr>"
    using ask_status [of "\<lparr>question = '' hi ''\<rparr>" "always_returning text_response"
         "new_sdk_globals None" app_with_failing_database "[]",
         THEN conjunct2, THEN conjunct2, THEN conjunct2, THEN conjunct1]
      s2 ok [OF ex] dm str
    by simp
  have w4: "fst (ask (always_returning bytes_text_response) (new_sdk_globals None) app_without_database
          \<lparr>question = '' hi ''\<rparr> []) = Inr \<lparr>answer = ''hi'', source = Some ''gemini''\<rparr>"
    using ask_status [of "\<lparr>question = '' hi ''\<rparr>" "always_returning bytes_text_response"
         "new_sdk_globals None" app_without_database "[]",
         THEN conjunct2, THEN conjunct2, THEN conjunct2, THEN conjunct2]
      s2 ok [OF exb] dm co
    by simp
  show ?thesis
    using s1 s2 w1 w2 w3 w4 fail ok [OF ex] ok [OF exb] dm st co by simp
qed

text \<open>
  Claim C7 as stated fails when the invoker's result is not a string the response
  model takes. For a provider response whose \<open>text\<close> is the byte \<open>0xFF\<close> the invoker
  returns these bytes, they are not UTF-8, and the request ends with the validation
  error of the response model: neither 400 nor 502 nor an answer.
\<close>

theorem ask_refuses_undecodable_answer:
  "ask_gemini_sync (always_returning invalid_utf8_response) (new_sdk_globals None)
       ''hi'' ''gemini-2.5-flash'' 512 (1 / 5) 2 1 [] =
     (Inr (PBytes [CHR 0xFF]),
      [Call (ModelsAttr ''generate_content'') (snd (hd (payload_variants ''hi'' ''gemini-2.5-flash'')))]) \<and>
   ask (always_returning invalid_utf8_response) (new_sdk_globals None) app_without_database
       \<lparr>question = ''hi''\<rparr> [] =
     (Inl ResponseValidationError,
      [Call (ModelsAttr ''generate_content'') (snd (hd (payload_variants ''hi'' ''gemini-2.5-flash'')))])"
proof -
  have s2: "strip ''hi'' = ''hi''"
    by (simp add: strip_def is_space_def)
  have nb: "\<not> blank ''hi''"
    by (simp add: blank_def strip_def is_space_def)
  have dm: "DEFAULT_MODEL (new_sdk_globals None) = ''gemini-2.5-flash''"
    by (simp add: new_sdk_globals_def)
  have ex: "extract_text invalid_utf8_response = Inr (PBytes [CHR 0xFF])"
    by code_simp
  have ok: "ask_gemini_sync (always_returning invalid_utf8_response) (new_sdk_globals None)
          ''hi'' ''gemini-2.5-flash'' 512 (1 / 5) 2 1 [] =
     (Inr (PBytes [CHR 0xFF]),
      [Call (ModelsAttr ''generate_content'') (snd (hd (payload_variants ''hi'' ''gemini-2.5-flash'')))])"
    using nb ex
    by (simp add: ask_gemini_sync_def py_range_def attempt_body_def new_sdk_globals_def
          models_client_def new_sdk_path_def find_func_def candidate_names_def
          negotiate_and_extract_def call_with_signature_def payload_variants_def call_kwargs_def
          always_returning_def upt_rec)
  have "ask (always_returning invalid_utf8_response) (new_sdk_globals None) app_without_database
       \<lparr>question = ''hi''\<rparr> [] =
     (Inl ResponseValidationError,
      [Call (ModelsAttr ''generate_content'') (snd (hd (payload_variants ''hi'' ''gemini-2.5-flash'')))])"
    using s2 ok dm
    by (simp add: ask_def Let_def app_without_database_def str_field_def)
  with ok show ?thesis by simp
qed

text \<open>
  Claim C8. When the invoker has returned an answer and the insert of the storage
  layer raises, \<open>POST /ask\<close> still returns the success response with that answer; the
  exception is written to the log as a warning and goes no further.
\<close>

theorem ask_survives_storage_failure:
  "strip (question request) \<noteq> [] \<and>
   ask_gemini_sync P g (strip (question request)) (DEFAULT_MODEL g) 512 (1 / 5) 2 1 tr =
     (Inr (PStr s), tr1) \<and>
   save_qa_bound a \<and> db a = Some execute \<and>
   execute tr1 (strip (question request)) (PStr s) = Inl e \<longrightarrow>
     ask P g a request tr =
       (Inr \<lparr>answer = s, source = Some ''gemini''\<rparr>,
        tr1 @ [Execute (strip (question request)) (PStr s), LogWarning e])"
  by (simp add: ask_def save_qa_def Let_def)

theorem ask_survives_storage_failure_witness:
  "strip (question \<lparr>question = '' hi ''\<rparr>) \<noteq> [] \<and>
   save_qa_bound app_with_failing_database \<and>
   db app_with_failing_database = Some failing_database \<and>
   failing_database
     [Call (ModelsAttr ''generate_content'') (snd (hd (payload_variants ''hi'' ''gemini-2.5-flash'')))]
     ''hi'' (PStr ''y'') = Inl (Exn OtherException ''connection refused'') \<and>
   ask (always_returning text_response) (new_sdk_globals None) app_with_failing_database
       \<lparr>question = '' hi ''\<rparr> [] =
     (Inr \<lparr>answer = ''y'', source = Some ''gemini''\<rparr>,
      [Call (ModelsAttr ''generate_content'') (snd (hd (payload_variants ''hi'' ''gemini-2.5-flash''))),
       Execute ''hi'' (PStr ''y''),
       LogWarning (Exn OtherException ''connection refused'')])"
proof -
  have s2: "strip '' hi '' = ''hi''"
    by (simp add: strip_def is_space_def)
  have nb: "\<not> blank ''hi''"
    by (simp add: blank_def strip_def is_space_def)
  have ex: "extract_text text_response = Inr (PStr ''y'')"
    by code_simp
  have ok: "ask_gemini_sync (always_returning text_response) (new_sdk_globals None)
          ''hi'' (DEFAULT_MODEL (new_sdk_globals None)) 512 (1 / 5) 2 1 [] =
     (Inr (PStr ''y''),
      [Call (ModelsAttr ''generate_content'') (snd (hd (payload_variants ''hi'' ''gemini-2.5-flash'')))])"
    using nb ex
    by (simp add: ask_gemini_sync_def py_range_def attempt_body_def new_sdk_globals_def
          models_client_def new_sdk_path_def find_func_def candidate_names_def
          negotiate_and_extract_def call_with_signature_def payload_variants_def call_kwargs_def
          always_returning_def upt_rec)
  show ?thesis
    using ask_survives_storage_failure
      [of "\<lparr>question = '' hi ''\<rparr>" "always_returning text_response" "new_sdk_globals None"
          "[]" "''y''"
          "[Call (ModelsAttr ''generate_content'') (snd (hd (payload_variants ''hi'' ''gemini-2.5-flash'')))]"
          app_with_failing_database failing_database "Exn OtherException ''connection refused''"]
      s2 ok
    by (simp add: app_with_failing_database_def failing_database_def)
qed

lemma init_new_cases:
  "init_new env = (False, None) \<or> (\<exists>c. init_new env = (True, Some c))"
  by (auto simp: init_new_def split: option.splits sum.splits list.splits)

lemma init_old_cases:
  "init_old env = (False, None) \<or> (\<exists>sdk. init_old env = (True, Some sdk))"
  by (auto simp: init_old_def split: option.splits sum.splits)

text \<open>
  Claim C9, as the code has it. Discovery runs once, when the module is imported: the
  client of the new SDK is tried first, and when it is bound the older SDK is not
  tried; the older SDK is the fallback when the new one gives no client. When neither
  can be set up the import itself raises \<open>ImportError\<close>: a caller that imports the
  module and asks gets that exception, no provider is contacted, and there is no
  invoker to call afterwards. After an import that succeeded one of the two SDKs is
  bound, every attempt of every call takes the path of that SDK, and so the error of
  line 245, that no compatible SDK is available, is never raised.
\<close>

theorem provider_discovery:
  "(\<forall>c. init_new env = (True, Some c) \<longrightarrow>
      module_init env =
        Inr \<lparr>DEFAULT_MODEL = (case GEMINI_MODEL env of None \<Rightarrow> ''gemini-2.5-flash'' | Some m \<Rightarrow> m),
             time_sleep = time_module_sleep env,
             has_new_genai = True, client_handle = Some c,
             has_old_genai = False, old_genai = None\<rparr>) \<and>
   (\<forall>sdk. \<not> fst (init_new env) \<and> init_old env = (True, Some sdk) \<longrightarrow>
      module_init env =
        Inr \<lparr>DEFAULT_MODEL = (case GEMINI_MODEL env of None \<Rightarrow> ''gemini-2.5-flash'' | Some m \<Rightarrow> m),
             time_sleep = time_module_sleep env,
             has_new_genai = False, client_handle = None,
             has_old_genai = True, old_genai = Some sdk\<rparr>) \<and>
   (\<not> fst (init_new env) \<and> \<not> fst (init_old env) \<longrightarrow>
      module_init env = Inl (Exn ImportError
        ''No Google GenAI SDK found. Install `google-genai` or `google-generativeai`.'') \<and>
      import_and_ask env P q tr = (Inl (Exn ImportError
        ''No Google GenAI SDK found. Install `google-genai` or `google-generativeai`.''), tr)) \<and>
   (\<forall>g0. module_init env = Inr g0 \<longrightarrow>
      import_and_ask env P q tr = ask_gemini_sync P g0 q (DEFAULT_MODEL g0) 512 (1 / 5) 2 1 tr \<and>
      ((\<exists>c. has_new_genai g0 \<and> client_handle g0 = Some c \<and>
            attempt_body P g0 q model mot temp tr = new_sdk_path P c q model mot temp tr) \<or>
       (\<exists>sdk. \<not> has_new_genai g0 \<and> has_old_genai g0 \<and> old_genai g0 = Some sdk \<and>
            attempt_body P g0 q model mot temp tr = old_sdk_path P sdk q model mot temp tr)))"
proof (intro conjI allI impI)
  fix c
  assume "init_new env = (True, Some c)"
  then show "module_init env =
        Inr \<lparr>DEFAULT_MODEL = (case GEMINI_MODEL env of None \<Rightarrow> ''gemini-2.5-flash'' | Some m \<Rightarrow> m),
             time_sleep = time_module_sleep env,
             has_new_genai = True, client_handle = Some c,
             has_old_genai = False, old_genai = None\<rparr>"
    by (simp add: module_init_def)
next
  fix sdk
  assume "\<not> fst (init_new env) \<and> init_old env = (True, Some sdk)"
  then show "module_init env =
        Inr \<lparr>DEFAULT_MODEL = (case GEMINI_MODEL env of None \<Rightarrow> ''gemini-2.5-flash'' | Some m \<Rightarrow> m),
             time_sleep = time_module_sleep env,
             has_new_genai = False, client_handle = None,
             has_old_genai = True, old_genai = Some sdk\<rparr>"
    using init_new_cases [of env] by (auto simp: module_init_def)
next
  assume h: "\<not> fst (init_new env) \<and> \<not> fst (init_old env)"
  then show m: "module_init env = Inl (Exn ImportError
        ''No Google GenAI SDK found. Install `google-genai` or `google-generativeai`.'')"
    by (cases "init_new env"; cases "init_old env") (simp add: module_init_def)
  then show "import_and_ask env P q tr = (Inl (Exn ImportError
        ''No Google GenAI SDK found. Install `google-genai` or `google-generativeai`.''), tr)"
    by (simp add: import_and_ask_def)
next
  fix g0
  assume "module_init env = Inr g0"
  then show "import_and_ask env P q tr = ask_gemini_sync P g0 q (DEFAULT_MODEL g0) 512 (1 / 5) 2 1 tr"
    by (simp add: import_and_ask_def)
next
  fix g0
  assume m: "module_init env = Inr g0"
  show "(\<exists>c. has_new_genai g0 \<and> client_handle g0 = Some c \<and>
            attempt_body P g0 q model mot temp tr = new_sdk_path P c q model mot temp tr) \<or>
       (\<exists>sdk. \<not> has_new_genai g0 \<and> has_old_genai g0 \<and> old_genai g0 = Some sdk \<and>
            attempt_body P g0 q model mot temp tr = old_sdk_path P sdk q model mot temp tr)"
    using m init_new_cases [of env] init_old_cases [of env]
    by (auto simp: module_init_def attempt_body_def split: if_splits)
qed

theorem provider_discovery_witness:
  "init_new (both_sdk_environment (models_client None)) = (True, Some (models_client None)) \<and>
   module_init (both_sdk_environment (models_client None)) = Inr (new_sdk_globals None) \<and>
   attempt_body (always_returning text_response) (new_sdk_globals None) ''hi'' ''m'' 512 (1 / 5) [] =
     new_sdk_path (always_returning text_response) (models_client None) ''hi'' ''m'' 512 (1 / 5) [] \<and>
   import_and_ask (both_sdk_environment (models_client None)) (always_returning text_response) ''hi'' [] =
     ask_gemini_sync (always_returning text_response) (new_sdk_globals None) ''hi''
       ''gemini-2.5-flash'' 512 (1 / 5) 2 1 [] \<and>
   \<not> fst (init_new old_sdk_environment) \<and>
   init_old old_sdk_environment =
     (True, Some \<lparr>ChatCompletion_create = False, generate_text = True\<rparr>) \<and>
   module_init old_sdk_environment =
     Inr \<lparr>DEFAULT_MODEL = ''gemini-2.5-flash'', time_sleep = cpython_sleep,
          has_new_genai = False, client_handle = None, has_old_genai = True,
          old_genai = Some \<lparr>ChatCompletion_create = False, generate_text = True\<rparr>\<rparr> \<and>
   \<not> fst (init_new no_sdk_environment) \<and> \<not> fst (init_old no_sdk_environment) \<and>
   module_init no_sdk_environment = Inl (Exn ImportError
     ''No Google GenAI SDK found. Install `google-genai` or `google-generativeai`.'') \<and>
   import_and_ask no_sdk_environment (always_returning text_response) ''hi'' [] =
     (Inl (Exn ImportError
        ''No Google GenAI SDK found. Install `google-genai` or `google-generativeai`.''), [])"
proof -
  let ?P = "always_returning text_response"
  have i1: "init_new (both_sdk_environment (models_client None)) = (True, Some (models_client None))"
    by (simp add: init_new_def both_sdk_environment_def)
  have i2: "\<not> fst (init_new old_sdk_environment)"
      "init_old old_sdk_environment =
         (True, Some \<lparr>ChatCompletion_create = False, generate_text = True\<rparr>)"
    by (simp_all add: init_new_def init_old_def old_sdk_environment_def)
  have i3: "\<not> fst (init_new no_sdk_environment) \<and> \<not> fst (init_old no_sdk_environment)"
    by (simp add: init_new_def init_old_def no_sdk_environment_def)
  have m1: "module_init (both_sdk_environment (models_client None)) = Inr (new_sdk_globals None)"
    using provider_discovery [of "both_sdk_environment (models_client None)", THEN conjunct1] i1
    by (simp add: new_sdk_globals_def both_sdk_environment_def)
  have a1: "import_and_ask (both_sdk_environment (models_client None)) ?P ''hi'' [] =
       ask_gemini_sync ?P (new_sdk_globals None) ''hi'' ''gemini-2.5-flash'' 512 (1 / 5) 2 1 [] \<and>
     attempt_body ?P (new_sdk_globals None) ''hi'' ''m'' 512 (1 / 5) [] =
       new_sdk_path ?P (models_client None) ''hi'' ''m'' 512 (1 / 5) []"
    using provider_discovery [of "both_sdk_environment (models_client None)" ?P "''hi''" "[]"
        "''m''" 512 "1 / 5", THEN conjunct2, THEN conjunct2, THEN conjunct2] m1
    by (simp add: new_sdk_globals_def)
  have m2: "module_init old_sdk_environment =
     Inr \<lparr>DEFAULT_MODEL = ''gemini-2.5-flash'', time_sleep = cpython_sleep,
          has_new_genai = False, client_handle = None, has_old_genai = True,
          old_genai = Some \<lparr>ChatCompletion_create = False, generate_text = True\<rparr>\<rparr>"
    using provider_discovery [of old_sdk_environment, THEN conjunct2, THEN conjunct1] i2
    by (simp add: old_sdk_environment_def)
  have m3: "module_init no_sdk_environment = Inl (Exn ImportError
       ''No Google GenAI SDK found. Install `google-genai` or `google-generativeai`.'') \<and>
     import_and_ask no_sdk_environment ?P ''hi'' [] =
       (Inl (Exn ImportError
          ''No Google GenAI SDK found. Install `google-genai` or `google-generativeai`.''), [])"
    using provider_discovery [of no_sdk_environment ?P "''hi''" "[]",
        THEN conjunct2, THEN conjunct2, THEN conjunct1] i3
    by simp
  show ?thesis
    using i1 i2 i3 m1 a1 m2 m3 by simp
qed

text \<open>
  Claim C9 as stated fails: where neither SDK can be set up no call fails with the
  error that no compatible SDK is available. The import of the module raises
  \<open>ImportError\<close>, and that is what a caller gets who imports the module and asks.
\<close>

theorem no_sdk_import_fails:
  "module_init no_sdk_environment = Inl (Exn ImportError
     ''No Google GenAI SDK found. Install `google-genai` or `google-generativeai`.'') \<and>
   import_and_ask no_sdk_environment (always_returning text_response) ''hi'' [] =
     (Inl (Exn ImportError
        ''No Google GenAI SDK found. Install `google-genai` or `google-generativeai`.''), []) \<and>
   fst (import_and_ask no_sdk_environment (always_returning text_response) ''hi'' []) \<noteq>
     Inl (Exn RuntimeError ''No compatible Google GenAI SDK available'')"
proof -
  have "module_init no_sdk_environment = Inl (Exn ImportError
     ''No Google GenAI SDK found. Install `google-genai` or `google-generativeai`.'')"
    by (simp add: module_init_def init_new_def init_old_def no_sdk_environment_def)
  then show ?thesis
    by (simp add: import_and_ask_def)
qed

end
